theory Spec2Isabelle
  imports Complex_Main
begin

section \<open>Numbers, errors\<close>

text \<open>
  JavaScript numbers are modelled as reals. Except for the bounds of a Quadratic, which
  are also modelled with each operation rounded to a double, the arithmetic is exact:
  the statements are then about the geometry the code computes, not about rounding. Where
  the code can produce a value that is not a real number, the model says so explicitly:
  \<open>NaN\<close> returned by \<open>Quadratic.extremaT\<close> is \<open>None\<close>, a division whose divisor
  can be zero is guarded where it is used, and every \<open>throw\<close> is a value of \<open>error\<close>.
\<close>

datatype error =
    ZeroMagnitude   \<comment> \<open>"Cannot normalize a zero-magnitude vector"\<close>
  | NotInvertible   \<comment> \<open>"Matrix could not be inverted, determinant === 0"\<close>
  | NotVerified     \<comment> \<open>"Not verified to work if radiusX < radiusY"\<close>
  | TypeError       \<comment> \<open>a method called on \<open>undefined\<close>\<close>
  | NonFinite       \<comment> \<open>a coordinate that is \<open>Infinity\<close> or \<open>-Infinity\<close>\<close>

section \<open>DOT/Vector2\<close>

datatype Vector2 = Vector2 (vx: real) (vy: real)

definition plus_v :: "Vector2 \<Rightarrow> Vector2 \<Rightarrow> Vector2" where
  "plus_v a b = Vector2 (vx a + vx b) (vy a + vy b)"

definition minus_v :: "Vector2 \<Rightarrow> Vector2 \<Rightarrow> Vector2" where
  "minus_v a b = Vector2 (vx a - vx b) (vy a - vy b)"

definition timesScalar :: "Vector2 \<Rightarrow> real \<Rightarrow> Vector2" where
  "timesScalar a s = Vector2 (vx a * s) (vy a * s)"

definition times_v :: "Vector2 \<Rightarrow> real \<Rightarrow> Vector2" where
  "times_v a s = timesScalar a s"

definition dot :: "Vector2 \<Rightarrow> Vector2 \<Rightarrow> real" where
  "dot a b = vx a * vx b + vy a * vy b"

definition magnitudeSquared :: "Vector2 \<Rightarrow> real" where
  "magnitudeSquared a = dot a a"

definition magnitude :: "Vector2 \<Rightarrow> real" where
  "magnitude a = sqrt (magnitudeSquared a)"

definition distanceSquared :: "Vector2 \<Rightarrow> Vector2 \<Rightarrow> real" where
  "distanceSquared a p = magnitudeSquared (minus_v a p)"

definition equals :: "Vector2 \<Rightarrow> Vector2 \<Rightarrow> bool" where
  "equals a b = (vx a = vx b \<and> vy a = vy b)"

definition equalsEpsilon :: "Vector2 \<Rightarrow> Vector2 \<Rightarrow> real \<Rightarrow> bool" where
  "equalsEpsilon a b epsilon = (\<bar>vx a - vx b\<bar> + \<bar>vy a - vy b\<bar> \<le> epsilon)"

definition normalized :: "Vector2 \<Rightarrow> error + Vector2" where
  "normalized a =
     (let mag = magnitude a
      in if mag = 0 then Inl ZeroMagnitude else Inr (Vector2 (vx a / mag) (vy a / mag)))"

definition negated :: "Vector2 \<Rightarrow> Vector2" where
  "negated a = Vector2 (- vx a) (- vy a)"

definition perpendicular :: "Vector2 \<Rightarrow> Vector2" where
  "perpendicular a = Vector2 (vy a) (- vx a)"

definition blend :: "Vector2 \<Rightarrow> Vector2 \<Rightarrow> real \<Rightarrow> Vector2" where
  "blend a b ratio = plus_v a (times_v (minus_v b a) ratio)"

definition createPolar :: "real \<Rightarrow> real \<Rightarrow> Vector2" where
  "createPolar mag angle = timesScalar (Vector2 (cos angle) (sin angle)) mag"

section \<open>DOT/Bounds2\<close>

datatype Bounds2 = Bounds2 (minX: real) (minY: real) (maxX: real) (maxY: real)

definition containsCoordinates :: "Bounds2 \<Rightarrow> real \<Rightarrow> real \<Rightarrow> bool" where
  "containsCoordinates b px py = (minX b \<le> px \<and> px \<le> maxX b \<and> minY b \<le> py \<and> py \<le> maxY b)"

definition containsPoint :: "Bounds2 \<Rightarrow> Vector2 \<Rightarrow> bool" where
  "containsPoint b p = containsCoordinates b (vx p) (vy p)"

definition withCoordinates :: "Bounds2 \<Rightarrow> real \<Rightarrow> real \<Rightarrow> Bounds2" where
  "withCoordinates b px py =
     Bounds2 (min (minX b) px) (min (minY b) py) (max (maxX b) px) (max (maxY b) py)"

definition withPoint :: "Bounds2 \<Rightarrow> Vector2 \<Rightarrow> Bounds2" where
  "withPoint b p = withCoordinates b (vx p) (vy p)"

section \<open>KITE/segments/Quadratic: the curve\<close>

text \<open>
  A Quadratic is determined by its three constructor arguments; the functions of this
  section are the methods that read nothing else. The object with its caches follows in
  the next section.
\<close>

datatype Quadratic = Quadratic (q_start: Vector2) (q_control: Vector2) (q_end: Vector2)

definition positionAt :: "Quadratic \<Rightarrow> real \<Rightarrow> Vector2" where
  "positionAt q t =
     (let mt = 1 - t
      in plus_v (plus_v (times_v (q_start q) (mt * mt)) (times_v (q_control q) (2 * mt * t)))
           (times_v (q_end q) (t * t)))"

definition subdivided :: "Quadratic \<Rightarrow> real \<Rightarrow> Quadratic list" where
  "subdivided q t =
     (let leftMid = blend (q_start q) (q_control q) t;
          rightMid = blend (q_control q) (q_end q) t;
          mid = blend leftMid rightMid t
      in [Quadratic (q_start q) leftMid mid, Quadratic mid rightMid (q_end q)])"

text \<open>\<open>Quadratic.extremaT\<close>: \<open>None\<close> is the \<open>NaN\<close> of the source.\<close>

definition extremaT :: "real \<Rightarrow> real \<Rightarrow> real \<Rightarrow> real option" where
  "extremaT s c e =
     (let divisorX = 2 * (e - 2 * c + s)
      in if divisorX \<noteq> 0 then Some (- 2 * (c - s) / divisorX) else None)"

section \<open>KITE/segments/Line and the segments a Quadratic reduces to\<close>

datatype Line = Line (l_start: Vector2) (l_end: Vector2)

text \<open>\<open>Segment.Line\<close> sets \<open>invalid\<close> when \<open>start.equals( end, 0 )\<close>.\<close>

definition invalid :: "Line \<Rightarrow> bool" where
  "invalid l = equals (l_start l) (l_end l)"

datatype segment = LineSeg Line | QuadraticSeg Quadratic

text \<open>
  Modelled from the spec: \<open>Util.arePointsCollinear\<close> of the DOT version that
  Quadratic.js requires is not among the sources. The spec speaks of three points that are
  "exactly collinear": the signed area of their triangle is zero.
\<close>

definition arePointsCollinear :: "Vector2 \<Rightarrow> Vector2 \<Rightarrow> Vector2 \<Rightarrow> bool" where
  "arePointsCollinear a b c =
     (vx a * (vy b - vy c) + vx b * (vy c - vy a) + vx c * (vy a - vy b) = 0)"

text \<open>
  Modelled from the spec: \<open>Line.getNondegenerateSegments\<close> of the Line that Quadratic.js
  requires is not among the sources. The spec calls a Line degenerate when its start and
  end coincide, and has degenerate segments filtered out.
\<close>

definition Line_getNondegenerateSegments :: "Line \<Rightarrow> segment list" where
  "Line_getNondegenerateSegments l = (if equals (l_start l) (l_end l) then [] else [LineSeg l])"

text \<open>
  \<open>v.dot( delta.normalized )\<close>: the source passes the method \<open>normalized\<close> itself, not its
  result. \<open>dot\<close> reads the \<open>x\<close> and \<open>y\<close> of its argument, which a function does not
  have, so the product is \<open>NaN\<close> for every vector.
\<close>

definition dot_of_method :: "Vector2 \<Rightarrow> real option" where
  "dot_of_method v = None"

definition getNondegenerateSegments :: "Quadratic \<Rightarrow> segment list" where
  "getNondegenerateSegments q =
     (let start = q_start q; control = q_control q; end' = q_end q;
          startIsEnd = equals start end';
          startIsControl = equals start control;
          endIsControl = equals start control
      in if startIsEnd \<and> startIsControl then []
         else if startIsEnd then
           (let halfPoint = positionAt q 0.5
            in [LineSeg (Line start halfPoint), LineSeg (Line halfPoint end')])
         else if arePointsCollinear start control end' then
           (if startIsControl \<or> endIsControl then [LineSeg (Line start end')]
            else
              (let delta = minus_v end' start;
                   p1d = (case dot_of_method (minus_v control start) of
                            None \<Rightarrow> None
                          | Some d \<Rightarrow> Some (d / magnitude delta));
                   t = (case p1d of None \<Rightarrow> None | Some p \<Rightarrow> extremaT 0 p 1)
               in case t of
                    None \<Rightarrow> [LineSeg (Line start end')]
                  | Some tv \<Rightarrow>
                      if tv > 0 \<and> tv < 1 then
                        (let pt = positionAt q tv
                         in Line_getNondegenerateSegments (Line start pt) @
                            Line_getNondegenerateSegments (Line pt end'))
                      else [LineSeg (Line start end')]))
         else [QuadraticSeg q])"

section \<open>KITE/segments/Quadratic: the object and its caches\<close>

text \<open>
  The fields \<open>_start\<close>, \<open>_control\<close> and \<open>_end\<close> hold references to Vector2 objects; the
  setters compare them with \<open>!==\<close>, which on objects is identity of reference. A heap
  maps a reference to the vector it holds. A cache field is \<open>None\<close> when the source's is
  \<open>null\<close>; a cached critical parameter is \<open>Some None\<close> when it is \<open>NaN\<close>.
  \<open>invalidated_events\<close> counts the calls of \<open>trigger0( 'invalidated' )\<close>.
\<close>

type_synonym ref = nat

type_synonym heap = "ref \<Rightarrow> Vector2"

record QuadraticObj =
  f_start :: ref
  f_control :: ref
  f_end :: ref
  f_startTangent :: "Vector2 option"
  f_endTangent :: "Vector2 option"
  f_tCriticalX :: "real option option"
  f_tCriticalY :: "real option option"
  f_bounds :: "Bounds2 option"
  invalidated_events :: nat

definition invalidate :: "QuadraticObj \<Rightarrow> QuadraticObj" where
  "invalidate q =
     q\<lparr>f_startTangent := None, f_endTangent := None, f_tCriticalX := None,
       f_tCriticalY := None, f_bounds := None,
       invalidated_events := Suc (invalidated_events q)\<rparr>"

definition new_Quadratic :: "ref \<Rightarrow> ref \<Rightarrow> ref \<Rightarrow> QuadraticObj" where
  "new_Quadratic s c e =
     invalidate \<lparr>f_start = s, f_control = c, f_end = e, f_startTangent = None,
       f_endTangent = None, f_tCriticalX = None, f_tCriticalY = None, f_bounds = None,
       invalidated_events = 0\<rparr>"

definition deref :: "heap \<Rightarrow> QuadraticObj \<Rightarrow> Quadratic" where
  "deref h q = Quadratic (h (f_start q)) (h (f_control q)) (h (f_end q))"

definition getStartTangent :: "heap \<Rightarrow> QuadraticObj \<Rightarrow> error + (Vector2 \<times> QuadraticObj)" where
  "getStartTangent h q =
     (case f_startTangent q of
        Some v \<Rightarrow> Inr (v, q)
      | None \<Rightarrow>
          (let controlIsStart = equals (h (f_start q)) (h (f_control q))
           in case (if controlIsStart then normalized (minus_v (h (f_end q)) (h (f_start q)))
                    else normalized (minus_v (h (f_control q)) (h (f_start q)))) of
                Inl err \<Rightarrow> Inl err
              | Inr v \<Rightarrow> Inr (v, q\<lparr>f_startTangent := Some v\<rparr>)))"

definition getEndTangent :: "heap \<Rightarrow> QuadraticObj \<Rightarrow> error + (Vector2 \<times> QuadraticObj)" where
  "getEndTangent h q =
     (case f_endTangent q of
        Some v \<Rightarrow> Inr (v, q)
      | None \<Rightarrow>
          (let controlIsEnd = equals (h (f_end q)) (h (f_control q))
           in case (if controlIsEnd then normalized (minus_v (h (f_end q)) (h (f_start q)))
                    else normalized (minus_v (h (f_end q)) (h (f_control q)))) of
                Inl err \<Rightarrow> Inl err
              | Inr v \<Rightarrow> Inr (v, q\<lparr>f_endTangent := Some v\<rparr>)))"

definition getTCriticalX :: "heap \<Rightarrow> QuadraticObj \<Rightarrow> real option \<times> QuadraticObj" where
  "getTCriticalX h q =
     (case f_tCriticalX q of
        Some v \<Rightarrow> (v, q)
      | None \<Rightarrow>
          (let v = extremaT (vx (h (f_start q))) (vx (h (f_control q))) (vx (h (f_end q)))
           in (v, q\<lparr>f_tCriticalX := Some v\<rparr>)))"

definition getTCriticalY :: "heap \<Rightarrow> QuadraticObj \<Rightarrow> real option \<times> QuadraticObj" where
  "getTCriticalY h q =
     (case f_tCriticalY q of
        Some v \<Rightarrow> (v, q)
      | None \<Rightarrow>
          (let v = extremaT (vy (h (f_start q))) (vy (h (f_control q))) (vy (h (f_end q)))
           in (v, q\<lparr>f_tCriticalY := Some v\<rparr>)))"

text \<open>
  \<open>!isNaN( t ) && t > 0 && t < 1\<close> on a critical parameter, and the bounds extended by
  the curve's position there.
\<close>

definition withCritical :: "Quadratic \<Rightarrow> real option \<Rightarrow> Bounds2 \<Rightarrow> Bounds2" where
  "withCritical c tCritical b =
     (case tCritical of
        None \<Rightarrow> b
      | Some t \<Rightarrow> if t > 0 \<and> t < 1 then withPoint b (positionAt c t) else b)"

definition getBounds :: "heap \<Rightarrow> QuadraticObj \<Rightarrow> Bounds2 \<times> QuadraticObj" where
  "getBounds h q =
     (case f_bounds q of
        Some b \<Rightarrow> (b, q)
      | None \<Rightarrow>
          (let s = h (f_start q); e = h (f_end q);
               b0 = Bounds2 (min (vx s) (vx e)) (min (vy s) (vy e))
                            (max (vx s) (vx e)) (max (vy s) (vy e));
               xq = getTCriticalX h q;
               yq = getTCriticalY h (snd xq);
               q2 = snd yq;
               b1 = withCritical (deref h q2) (fst xq) b0;
               b2 = withCritical (deref h q2) (fst yq) b1
           in (b2, q2\<lparr>f_bounds := Some b2\<rparr>)))"

text \<open>
  \<open>Segment.addInvalidatingGetterSetter( Quadratic, name )\<close> for the three names it is
  called with: the getter returns the field, the setter stores the value and invalidates
  when the value is not the one held.
\<close>

datatype property = P_start | P_control | P_end

fun getter :: "property \<Rightarrow> QuadraticObj \<Rightarrow> ref" where
  "getter P_start q = f_start q"
| "getter P_control q = f_control q"
| "getter P_end q = f_end q"

fun assign :: "property \<Rightarrow> ref \<Rightarrow> QuadraticObj \<Rightarrow> QuadraticObj" where
  "assign P_start v q = q\<lparr>f_start := v\<rparr>"
| "assign P_control v q = q\<lparr>f_control := v\<rparr>"
| "assign P_end v q = q\<lparr>f_end := v\<rparr>"

definition setter :: "property \<Rightarrow> ref \<Rightarrow> QuadraticObj \<Rightarrow> QuadraticObj" where
  "setter name v q = (if getter name q \<noteq> v then invalidate (assign name v q) else q)"

text \<open>
  The box that \<open>getBounds\<close> stores on a null cache, and the objects whose caches agree
  with the points they hold: each of the critical parameters and the bounds is either
  \<open>null\<close> or the value computed from the three points. The constructor and
  \<open>invalidate\<close> give such an object, and the getters keep it so.
\<close>

definition boundsOf :: "Quadratic \<Rightarrow> Bounds2" where
  "boundsOf c =
     withCritical c (extremaT (vy (q_start c)) (vy (q_control c)) (vy (q_end c)))
       (withCritical c (extremaT (vx (q_start c)) (vx (q_control c)) (vx (q_end c)))
          (Bounds2 (min (vx (q_start c)) (vx (q_end c))) (min (vy (q_start c)) (vy (q_end c)))
                   (max (vx (q_start c)) (vx (q_end c))) (max (vy (q_start c)) (vy (q_end c)))))"

definition coherent :: "heap \<Rightarrow> QuadraticObj \<Rightarrow> bool" where
  "coherent h q =
     ((f_tCriticalX q = None
        \<or> f_tCriticalX q = Some (extremaT (vx (h (f_start q))) (vx (h (f_control q))) (vx (h (f_end q)))))
    \<and> (f_tCriticalY q = None
        \<or> f_tCriticalY q = Some (extremaT (vy (h (f_start q))) (vy (h (f_control q))) (vy (h (f_end q)))))
    \<and> (f_bounds q = None \<or> f_bounds q = Some (boundsOf (deref h q))))"

text \<open>One coordinate of \<open>positionAt\<close>: the Bernstein form of the source's comment.\<close>

definition bernstein2 :: "real \<Rightarrow> real \<Rightarrow> real \<Rightarrow> real \<Rightarrow> real" where
  "bernstein2 s c e t = (1 - t) * (1 - t) * s + 2 * (1 - t) * t * c + t * t * e"

text \<open>A heap for the examples: three points at the references 0, 1 and 2.\<close>

definition heap3 :: "Vector2 \<Rightarrow> Vector2 \<Rightarrow> Vector2 \<Rightarrow> heap" where
  "heap3 a b c = (\<lambda>r. if r = 0 then a else if r = 1 then b else c)"

text \<open>An object whose caches are all filled: the state after the getters have run.\<close>

definition cached_example :: QuadraticObj where
  "cached_example =
     \<lparr>f_start = 0, f_control = 1, f_end = 2,
      f_startTangent = Some (Vector2 1 0), f_endTangent = Some (Vector2 1 0),
      f_tCriticalX = Some None, f_tCriticalY = Some None,
      f_bounds = Some (Bounds2 0 0 2 0), invalidated_events = 1\<rparr>"

section \<open>KITE/segments/Quadratic: the bounds in double arithmetic\<close>

text \<open>
  A JavaScript number is an IEEE 754 double, and an arithmetic operation is the exact
  operation followed by rounding to the nearest double, a tie going to the even
  significand. \<open>double_round\<close> is that rounding for the 53-bit significand of a double:
  a number other than zero is scaled by the power of two that brings its absolute value
  into \<open>[2^52, 2^53)\<close>, rounded to an integer, and scaled back. The exponent is not
  bounded: overflow to \<open>Infinity\<close> and the subnormal numbers are left out.
\<close>

definition round_half_even :: "real \<Rightarrow> int" where
  "round_half_even y =
     (let f = \<lfloor>y\<rfloor>; d = y - of_int f
      in if d < 1 / 2 then f else if d > 1 / 2 then f + 1 else if even f then f else f + 1)"

definition pow2 :: "int \<Rightarrow> real" where
  "pow2 e = (if e \<ge> 0 then 2 ^ nat e else 1 / 2 ^ nat (- e))"

definition double_round :: "real \<Rightarrow> real" where
  "double_round x =
     (if x = 0 then 0
      else (let e = \<lfloor>log 2 \<bar>x\<bar>\<rfloor> - 52
            in of_int (round_half_even (x / pow2 e)) * pow2 e))"

text \<open>
  The methods that \<open>getBounds\<close> runs, with a rounding \<open>rnd\<close> applied after each
  arithmetic operation, in the order JavaScript evaluates them: \<open>2 * mt * t\<close> is
  \<open>( 2 * mt ) * t\<close>, \<open>end - 2 * control + start\<close> is \<open>( end - 2 * control ) + start\<close>
  and \<open>-2 * ( control - start ) / divisorX\<close> is \<open>( -2 * ( control - start ) ) / divisorX\<close>.
  \<open>Vector2.times\<close> multiplies each coordinate by the scalar and \<open>Vector2.plus\<close> adds
  coordinate by coordinate. \<open>Math.min\<close>, \<open>Math.max\<close> and the comparisons do not round.
  With \<open>double_round\<close> for \<open>rnd\<close> these are the methods as they run on finite doubles;
  with the identity they are the functions of the sections above.
\<close>

definition times_fl :: "(real \<Rightarrow> real) \<Rightarrow> Vector2 \<Rightarrow> real \<Rightarrow> Vector2" where
  "times_fl rnd a s = Vector2 (rnd (vx a * s)) (rnd (vy a * s))"

definition plus_fl :: "(real \<Rightarrow> real) \<Rightarrow> Vector2 \<Rightarrow> Vector2 \<Rightarrow> Vector2" where
  "plus_fl rnd a b = Vector2 (rnd (vx a + vx b)) (rnd (vy a + vy b))"

definition positionAt_fl :: "(real \<Rightarrow> real) \<Rightarrow> Quadratic \<Rightarrow> real \<Rightarrow> Vector2" where
  "positionAt_fl rnd q t =
     (let mt = rnd (1 - t)
      in plus_fl rnd
           (plus_fl rnd (times_fl rnd (q_start q) (rnd (mt * mt)))
                        (times_fl rnd (q_control q) (rnd (rnd (2 * mt) * t))))
           (times_fl rnd (q_end q) (rnd (t * t))))"

definition extremaT_fl :: "(real \<Rightarrow> real) \<Rightarrow> real \<Rightarrow> real \<Rightarrow> real \<Rightarrow> real option" where
  "extremaT_fl rnd s c e =
     (let divisorX = rnd (2 * rnd (rnd (e - rnd (2 * c)) + s))
      in if divisorX \<noteq> 0 then Some (rnd (rnd (- 2 * rnd (c - s)) / divisorX)) else None)"

definition getTCriticalX_fl :: "(real \<Rightarrow> real) \<Rightarrow> heap \<Rightarrow> QuadraticObj \<Rightarrow> real option \<times> QuadraticObj" where
  "getTCriticalX_fl rnd h q =
     (case f_tCriticalX q of
        Some v \<Rightarrow> (v, q)
      | None \<Rightarrow>
          (let v = extremaT_fl rnd (vx (h (f_start q))) (vx (h (f_control q))) (vx (h (f_end q)))
           in (v, q\<lparr>f_tCriticalX := Some v\<rparr>)))"

definition getTCriticalY_fl :: "(real \<Rightarrow> real) \<Rightarrow> heap \<Rightarrow> QuadraticObj \<Rightarrow> real option \<times> QuadraticObj" where
  "getTCriticalY_fl rnd h q =
     (case f_tCriticalY q of
        Some v \<Rightarrow> (v, q)
      | None \<Rightarrow>
          (let v = extremaT_fl rnd (vy (h (f_start q))) (vy (h (f_control q))) (vy (h (f_end q)))
           in (v, q\<lparr>f_tCriticalY := Some v\<rparr>)))"

definition withCritical_fl :: "(real \<Rightarrow> real) \<Rightarrow> Quadratic \<Rightarrow> real option \<Rightarrow> Bounds2 \<Rightarrow> Bounds2" where
  "withCritical_fl rnd c tCritical b =
     (case tCritical of
        None \<Rightarrow> b
      | Some t \<Rightarrow> if t > 0 \<and> t < 1 then withPoint b (positionAt_fl rnd c t) else b)"

definition getBounds_fl :: "(real \<Rightarrow> real) \<Rightarrow> heap \<Rightarrow> QuadraticObj \<Rightarrow> Bounds2 \<times> QuadraticObj" where
  "getBounds_fl rnd h q =
     (case f_bounds q of
        Some b \<Rightarrow> (b, q)
      | None \<Rightarrow>
          (let s = h (f_start q); e = h (f_end q);
               b0 = Bounds2 (min (vx s) (vx e)) (min (vy s) (vy e))
                            (max (vx s) (vx e)) (max (vy s) (vy e));
               xq = getTCriticalX_fl rnd h q;
               yq = getTCriticalY_fl rnd h (snd xq);
               q2 = snd yq;
               b1 = withCritical_fl rnd (deref h q2) (fst xq) b0;
               b2 = withCritical_fl rnd (deref h q2) (fst yq) b1
           in (b2, q2\<lparr>f_bounds := Some b2\<rparr>)))"

text \<open>
  The box that \<open>getBounds\<close> stores on a null cache, and the objects whose cached critical
  parameters and bounds are \<open>null\<close> or the values computed from the three points held.
\<close>

definition boundsOf_fl :: "(real \<Rightarrow> real) \<Rightarrow> Quadratic \<Rightarrow> Bounds2" where
  "boundsOf_fl rnd c =
     withCritical_fl rnd c (extremaT_fl rnd (vy (q_start c)) (vy (q_control c)) (vy (q_end c)))
       (withCritical_fl rnd c (extremaT_fl rnd (vx (q_start c)) (vx (q_control c)) (vx (q_end c)))
          (Bounds2 (min (vx (q_start c)) (vx (q_end c))) (min (vy (q_start c)) (vy (q_end c)))
                   (max (vx (q_start c)) (vx (q_end c))) (max (vy (q_start c)) (vy (q_end c)))))"

definition coherent_fl :: "(real \<Rightarrow> real) \<Rightarrow> heap \<Rightarrow> QuadraticObj \<Rightarrow> bool" where
  "coherent_fl rnd h q =
     ((f_tCriticalX q = None
        \<or> f_tCriticalX q = Some (extremaT_fl rnd (vx (h (f_start q))) (vx (h (f_control q))) (vx (h (f_end q)))))
    \<and> (f_tCriticalY q = None
        \<or> f_tCriticalY q = Some (extremaT_fl rnd (vy (h (f_start q))) (vy (h (f_control q))) (vy (h (f_end q)))))
    \<and> (f_bounds q = None \<or> f_bounds q = Some (boundsOf_fl rnd (deref h q))))"

text \<open>
  The points of \<open>new Quadratic( new Vector2( 0.3, 0 ), new Vector2( 1.8, 1 ),
  new Vector2( 1.3, 0 ) )\<close> at the references 0, 1 and 2: a decimal literal is the double
  nearest to it.
\<close>

definition double_example :: heap where
  "double_example =
     heap3 (Vector2 (double_round (3 / 10)) 0) (Vector2 (double_round (9 / 5)) 1)
           (Vector2 (double_round (13 / 10)) 0)"

section \<open>DOT/Ray2 and DOT/Util\<close>

record Ray2 =
  pos :: Vector2
  dir :: Vector2

definition pointAtDistance :: "Ray2 \<Rightarrow> real \<Rightarrow> Vector2" where
  "pointAtDistance ray distance = plus_v (pos ray) (timesScalar (dir ray) distance)"

text \<open>
  \<open>Util.lineLineIntersection\<close> divides by the same denominator in both coordinates and
  hands the quotients to the Vector2 constructor, which stores \<open>x || 0\<close>. With a zero
  denominator a coordinate whose numerator is not zero is \<open>Infinity\<close> or
  \<open>-Infinity\<close>, and one whose numerator is zero is \<open>NaN\<close>, which the constructor
  stores as \<open>0\<close>. \<open>None\<close> is a point with an infinite coordinate; two zero
  numerators over a zero denominator give the finite point \<open>(0, 0)\<close>.
\<close>

definition lineLineIntersection :: "Vector2 \<Rightarrow> Vector2 \<Rightarrow> Vector2 \<Rightarrow> Vector2 \<Rightarrow> Vector2 option" where
  "lineLineIntersection p1 p2 p3 p4 =
     (let denominator = (vx p1 - vx p2) * (vy p3 - vy p4) - (vy p1 - vy p2) * (vx p3 - vx p4);
          numeratorX = (vx p1 * vy p2 - vy p1 * vx p2) * (vx p3 - vx p4)
              - (vx p1 - vx p2) * (vx p3 * vy p4 - vy p3 * vx p4);
          numeratorY = (vx p1 * vy p2 - vy p1 * vx p2) * (vy p3 - vy p4)
              - (vy p1 - vy p2) * (vx p3 * vy p4 - vy p3 * vx p4)
      in if denominator = 0 then
           (if numeratorX = 0 \<and> numeratorY = 0 then Some (Vector2 0 0) else None)
         else Some (Vector2 (numeratorX / denominator) (numeratorY / denominator)))"


section \<open>KITE/segments/Line: ray intersection\<close>

record hit =
  distance :: real
  point :: Vector2
  normal :: Vector2
  wind :: int

definition Line_intersection :: "Line \<Rightarrow> Ray2 \<Rightarrow> hit list" where
  "Line_intersection l ray =
     (let start = l_start l; end' = l_end l
      in case lineLineIntersection start end' (pos ray) (plus_v (pos ray) (dir ray)) of
           None \<Rightarrow> []
         | Some intersection \<Rightarrow>
             if vx start \<noteq> vx end' \<and>
                (if vx start > vx end'
                 then vx intersection \<ge> vx start \<or> vx intersection < vx end'
                 else vx intersection \<le> vx start \<or> vx intersection > vx end')
             then []
             else if vy start \<noteq> vy end' \<and>
                (if vy start > vy end'
                 then vy intersection \<ge> vy start \<or> vy intersection < vy end'
                 else vy intersection \<le> vy start \<or> vy intersection > vy end')
             then []
             else
               (let t = dot (minus_v intersection (pos ray)) (dir ray)
                in if t < 0 then []
                   else
                     (let diff = minus_v end' start; perp = perpendicular diff
                      in [\<lparr>distance = t, point = pointAtDistance ray t,
                           normal = (if dot perp (dir ray) > 0 then negated perp else perp),
                           wind = (if dot (perpendicular (dir ray)) diff < 0 then 1 else - 1)\<rparr>])))"

definition Line_windingIntersection :: "Line \<Rightarrow> Ray2 \<Rightarrow> int" where
  "Line_windingIntersection l ray =
     (case Line_intersection l ray of [] \<Rightarrow> 0 | h # _ \<Rightarrow> wind h)"

section \<open>KITE/util/Subpath\<close>

text \<open>
  The segments of a subpath are Lines here: the drawing calls modelled below (rect,
  lineTo) add nothing else. \<open>_.first\<close> and \<open>_.last\<close> of an empty array are
  \<open>undefined\<close>: \<open>None\<close>.
\<close>

record Subpath =
  points :: "Vector2 list"
  segments :: "Line list"
  closed :: bool

definition new_Subpath :: Subpath where
  "new_Subpath = \<lparr>points = [], segments = [], closed = False\<rparr>"

definition addPoint :: "Vector2 \<Rightarrow> Subpath \<Rightarrow> Subpath" where
  "addPoint p sp = sp\<lparr>points := points sp @ [p]\<rparr>"

definition addSegment :: "Line \<Rightarrow> Subpath \<Rightarrow> Subpath" where
  "addSegment l sp = (if \<not> invalid l then sp\<lparr>segments := segments sp @ [l]\<rparr> else sp)"

definition close :: "Subpath \<Rightarrow> Subpath" where
  "close sp = sp\<lparr>closed := True\<rparr>"

definition getFirstPoint :: "Subpath \<Rightarrow> Vector2 option" where
  "getFirstPoint sp = (case points sp of [] \<Rightarrow> None | p # _ \<Rightarrow> Some p)"

definition getLastPoint :: "Subpath \<Rightarrow> Vector2 option" where
  "getLastPoint sp = (if points sp = [] then None else Some (last (points sp)))"

definition isDrawable :: "Subpath \<Rightarrow> bool" where
  "isDrawable sp = (length (segments sp) > 0)"

definition isClosed :: "Subpath \<Rightarrow> bool" where
  "isClosed sp = closed sp"

definition hasClosingSegment :: "Subpath \<Rightarrow> error + bool" where
  "hasClosingSegment sp =
     (case getFirstPoint sp of
        None \<Rightarrow> Inl TypeError
      | Some first \<Rightarrow>
          (case getLastPoint sp of
             None \<Rightarrow> Inl TypeError
           | Some lastPoint \<Rightarrow> Inr (\<not> equalsEpsilon first lastPoint 0.000000001)))"

definition getClosingSegment :: "Subpath \<Rightarrow> error + Line" where
  "getClosingSegment sp =
     (case getLastPoint sp of
        None \<Rightarrow> Inl TypeError
      | Some lastPoint \<Rightarrow>
          (case getFirstPoint sp of
             None \<Rightarrow> Inl TypeError
           | Some first \<Rightarrow> Inr (Line lastPoint first)))"

section \<open>KITE/Shape: construction and winding\<close>

text \<open>
  Shape.js is written against a Subpath whose \<open>addPoint\<close> returns the subpath; the
  Subpath among the sources has the same methods with the same effects. A Shape mutates
  the Subpath objects it holds; the model rewrites the last element of \<open>subpaths\<close>.
\<close>

record Shape =
  subpaths :: "Subpath list"
  shape_bounds :: "Bounds2 option"
  lastQuadraticControlPoint :: "Vector2 option"
  lastCubicControlPoint :: "Vector2 option"

definition resetControlPoints :: "Shape \<Rightarrow> Shape" where
  "resetControlPoints s = s\<lparr>lastQuadraticControlPoint := None, lastCubicControlPoint := None\<rparr>"

definition Shape_invalidate :: "Shape \<Rightarrow> Shape" where
  "Shape_invalidate s = s\<lparr>shape_bounds := None\<rparr>"

definition new_Shape :: Shape where
  "new_Shape =
     Shape_invalidate (resetControlPoints
       \<lparr>subpaths = [], shape_bounds = None, lastQuadraticControlPoint = None,
        lastCubicControlPoint = None\<rparr>)"

definition addSubpath :: "Subpath \<Rightarrow> Shape \<Rightarrow> Shape" where
  "addSubpath sp s = Shape_invalidate (s\<lparr>subpaths := subpaths s @ [sp]\<rparr>)"

definition hasSubpaths :: "Shape \<Rightarrow> bool" where
  "hasSubpaths s = (length (subpaths s) > 0)"

definition getLastSubpath :: "Shape \<Rightarrow> Subpath option" where
  "getLastSubpath s = (if subpaths s = [] then None else Some (last (subpaths s)))"

text \<open>A method called on \<open>getLastSubpath()\<close> that changes the subpath it returns.\<close>

definition onLastSubpath :: "(Subpath \<Rightarrow> Subpath) \<Rightarrow> Shape \<Rightarrow> error + Shape" where
  "onLastSubpath f s =
     (case getLastSubpath s of
        None \<Rightarrow> Inl TypeError
      | Some sp \<Rightarrow> Inr (s\<lparr>subpaths := butlast (subpaths s) @ [f sp]\<rparr>))"

definition bind_e :: "error + 'a \<Rightarrow> ('a \<Rightarrow> error + 'b) \<Rightarrow> error + 'b" where
  "bind_e m f = (case m of Inl e \<Rightarrow> Inl e | Inr v \<Rightarrow> f v)"

definition addSegmentAndBounds :: "Line \<Rightarrow> Shape \<Rightarrow> error + Shape" where
  "addSegmentAndBounds l s =
     bind_e (onLastSubpath (addSegment l) s) (\<lambda>s1. Inr (Shape_invalidate s1))"

definition ensure :: "Vector2 \<Rightarrow> Shape \<Rightarrow> error + Shape" where
  "ensure p s =
     (if \<not> hasSubpaths s then onLastSubpath (addPoint p) (addSubpath new_Subpath s)
      else Inr s)"

definition Shape_getLastPoint :: "Shape \<Rightarrow> Vector2 option" where
  "Shape_getLastPoint s =
     (case getLastSubpath s of None \<Rightarrow> None | Some sp \<Rightarrow> getLastPoint sp)"

definition lineToPoint :: "Vector2 \<Rightarrow> Shape \<Rightarrow> error + Shape" where
  "lineToPoint p s =
     bind_e
       (if hasSubpaths s then
          (case Shape_getLastPoint s of
             None \<Rightarrow> Inl TypeError
           | Some start \<Rightarrow>
               (let end' = p; line = Line start end'
                in bind_e (onLastSubpath (addPoint end') s) (addSegmentAndBounds line)))
        else ensure p s)
       (\<lambda>s1. Inr (resetControlPoints s1))"

definition lineTo :: "real \<Rightarrow> real \<Rightarrow> Shape \<Rightarrow> error + Shape" where
  "lineTo px py s = lineToPoint (Vector2 px py) s"

definition rect :: "real \<Rightarrow> real \<Rightarrow> real \<Rightarrow> real \<Rightarrow> Shape \<Rightarrow> error + Shape" where
  "rect px py width height s =
     (let p0 = Vector2 px py; p1 = Vector2 (px + width) py;
          p2 = Vector2 (px + width) (py + height); p3 = Vector2 px (py + height)
      in bind_e (onLastSubpath (addPoint p0) (addSubpath new_Subpath s)) (\<lambda>s1.
         bind_e (onLastSubpath (addPoint p1) s1) (\<lambda>s2.
         bind_e (onLastSubpath (addPoint p2) s2) (\<lambda>s3.
         bind_e (onLastSubpath (addPoint p3) s3) (\<lambda>s4.
         bind_e (addSegmentAndBounds (Line p0 p1) s4) (\<lambda>s5.
         bind_e (addSegmentAndBounds (Line p1 p2) s5) (\<lambda>s6.
         bind_e (addSegmentAndBounds (Line p2 p3) s6) (\<lambda>s7.
         bind_e (onLastSubpath close s7) (\<lambda>s8.
         bind_e (onLastSubpath (addPoint (Vector2 px py)) (addSubpath new_Subpath s8)) (\<lambda>s9.
         Inr (resetControlPoints s9)))))))))))"

text \<open>The winding of one subpath: its segments, then the implicit closing segment.\<close>

definition Subpath_windingIntersection :: "Subpath \<Rightarrow> Ray2 \<Rightarrow> error + int" where
  "Subpath_windingIntersection sp ray =
     (if isDrawable sp then
        (let w = sum_list (map (\<lambda>l. Line_windingIntersection l ray) (segments sp))
         in bind_e (hasClosingSegment sp) (\<lambda>c.
              if c then bind_e (getClosingSegment sp) (\<lambda>l. Inr (w + Line_windingIntersection l ray))
              else Inr w))
      else Inr 0)"

fun windingIntersection_loop :: "Subpath list \<Rightarrow> Ray2 \<Rightarrow> int \<Rightarrow> error + int" where
  "windingIntersection_loop [] ray w = Inr w"
| "windingIntersection_loop (sp # sps) ray w =
     bind_e (Subpath_windingIntersection sp ray) (\<lambda>v. windingIntersection_loop sps ray (w + v))"

definition Shape_windingIntersection :: "Shape \<Rightarrow> Ray2 \<Rightarrow> error + int" where
  "Shape_windingIntersection s ray = windingIntersection_loop (subpaths s) ray 0"

definition Shape_containsPoint :: "Shape \<Rightarrow> Vector2 \<Rightarrow> error + bool" where
  "Shape_containsPoint s p =
     (let ray = \<lparr>pos = p, dir = Vector2 1 0\<rparr>
      in bind_e (Shape_windingIntersection s ray) (\<lambda>w. Inr (w \<noteq> 0)))"

text \<open>The Shape that \<open>rect(0,0,1,1)\<close> builds on a new Shape, and an open two-point subpath.\<close>

definition unit_square :: Shape where
  "unit_square =
     \<lparr>subpaths =
        [\<lparr>points = [Vector2 0 0, Vector2 1 0, Vector2 1 1, Vector2 0 1],
          segments = [Line (Vector2 0 0) (Vector2 1 0), Line (Vector2 1 0) (Vector2 1 1),
                      Line (Vector2 1 1) (Vector2 0 1)],
          closed = True\<rparr>,
         \<lparr>points = [Vector2 0 0], segments = [], closed = False\<rparr>],
      shape_bounds = None, lastQuadraticControlPoint = None, lastCubicControlPoint = None\<rparr>"

definition open_path :: Subpath where
  "open_path = \<lparr>points = [Vector2 0 0, Vector2 1 0],
                segments = [Line (Vector2 0 0) (Vector2 1 0)], closed = False\<rparr>"

section \<open>KITE/segments/Segment: toPiecewiseLinearSegments, as a Quadratic inherits it\<close>

text \<open>
  Modelled from the spec: \<open>Util.distToSegmentSquared\<close> of the DOT version that Segment.js
  requires is not among the sources. The spec calls its value the squared
  "midpoint-to-chord distance": the squared distance from the point to the segment from
  \<open>a\<close> to \<open>b\<close>.
\<close>

definition distToSegmentSquared :: "Vector2 \<Rightarrow> Vector2 \<Rightarrow> Vector2 \<Rightarrow> real" where
  "distToSegmentSquared p a b =
     (let segmentLength = distanceSquared a b
      in if segmentLength = 0 then distanceSquared p a
         else
           (let t = ((vx p - vx a) * (vx b - vx a) + (vy p - vy a) * (vy b - vy a)) / segmentLength
            in if t < 0 then distanceSquared p a
               else if t > 1 then distanceSquared p b
               else distanceSquared p (Vector2 (vx a + t * (vx b - vx a)) (vy a + t * (vy b - vy a)))))"

record options =
  minLevels :: int
  maxLevels :: int
  distanceEpsilon :: "real option"
  curveEpsilon :: "real option"
  pointMap :: "(Vector2 \<Rightarrow> Vector2) option"

text \<open>
  \<open>d / c < eps\<close> as JavaScript evaluates it: with \<open>c\<close> zero the quotient is
  \<open>Infinity\<close> for positive \<open>d\<close>, \<open>NaN\<close> for zero \<open>d\<close> (both comparisons false) and
  \<open>-Infinity\<close> for negative \<open>d\<close>.
\<close>

definition quotient_less :: "real \<Rightarrow> real \<Rightarrow> real \<Rightarrow> bool" where
  "quotient_less d c eps = (if c = 0 then d < 0 else d / c < eps)"

definition finished :: "options \<Rightarrow> int \<Rightarrow> int \<Rightarrow> Vector2 \<Rightarrow> Vector2 \<Rightarrow> Vector2 \<Rightarrow> bool" where
  "finished opts minL maxL middle start end' =
     (let finished0 = (maxL = 0)
      in if \<not> finished0 \<and> minL \<le> 0 then
           (case curveEpsilon opts of
              None \<Rightarrow> True
            | Some eps \<Rightarrow>
                quotient_less (distToSegmentSquared middle start end') (distanceSquared start end') eps)
           \<and> (case distanceEpsilon opts of
                None \<Rightarrow> True
              | Some eps \<Rightarrow> distToSegmentSquared middle start end' < eps)
         else finished0)"

definition pointMap_or_identity :: "options \<Rightarrow> Vector2 \<Rightarrow> Vector2" where
  "pointMap_or_identity opts = (case pointMap opts of None \<Rightarrow> (\<lambda>v. v) | Some f \<Rightarrow> f)"

text \<open>
  The recursion of the source ends only when \<open>maxLevels\<close> reaches zero or a criterion
  passes. The first argument bounds the depth of the calls; \<open>None\<close> is a recursion that
  has not returned within it.
\<close>

fun toPiecewiseLinearSegments_rec ::
  "nat \<Rightarrow> options \<Rightarrow> int \<Rightarrow> int \<Rightarrow> Line list \<Rightarrow> Vector2 \<Rightarrow> Vector2 \<Rightarrow> Quadratic \<Rightarrow> Line list option" where
  "toPiecewiseLinearSegments_rec 0 opts minL maxL segs start end' q = None"
| "toPiecewiseLinearSegments_rec (Suc n) opts minL maxL segs start end' q =
     (let middle = pointMap_or_identity opts (positionAt q 0.5)
      in if finished opts minL maxL middle start end' then Some (segs @ [Line start end'])
         else
           (let subdividedSegments = subdivided q 0.5
            in case toPiecewiseLinearSegments_rec n opts (minL - 1) (maxL - 1) segs start middle
                      (subdividedSegments ! 0) of
                 None \<Rightarrow> None
               | Some segs1 \<Rightarrow>
                   toPiecewiseLinearSegments_rec n opts (minL - 1) (maxL - 1) segs1 middle end'
                     (subdividedSegments ! 1)))"

definition toPiecewiseLinearSegments :: "nat \<Rightarrow> options \<Rightarrow> Quadratic \<Rightarrow> Line list option" where
  "toPiecewiseLinearSegments fuel opts q =
     toPiecewiseLinearSegments_rec fuel opts (minLevels opts) (maxLevels opts) []
       (pointMap_or_identity opts (q_start q)) (pointMap_or_identity opts (q_end q)) q"

section \<open>KITE/Shape.getStrokedShape: the join\<close>

text \<open>\<open>Math.atan2\<close> on reals (no signed zero).\<close>

definition atan2 :: "real \<Rightarrow> real \<Rightarrow> real" where
  "atan2 b a =
     (if a > 0 then arctan (b / a)
      else if a < 0 \<and> b \<ge> 0 then arctan (b / a) + pi
      else if a < 0 then arctan (b / a) - pi
      else if b > 0 then pi / 2
      else if b < 0 then - pi / 2
      else 0)"

definition angle :: "Vector2 \<Rightarrow> real" where
  "angle v = atan2 (vy v) (vx v)"


datatype piece =
    MoveTo Vector2
  | LineTo Vector2
  | Arc Vector2 real real real bool
  | Close





text \<open>Options and line styles for the examples.\<close>

definition dist_options :: options where
  "dist_options = \<lparr>minLevels = 0, maxLevels = 1, distanceEpsilon = Some (1/2),
                   curveEpsilon = None, pointMap = None\<rparr>"


section \<open>DOT/Matrix3 and DOT/Transform3\<close>

datatype Types = OTHER | IDENTITY | TRANSLATION_2D | SCALING | AFFINE

record Matrix3 =
  m00 :: real
  m01 :: real
  m02 :: real
  m10 :: real
  m11 :: real
  m12 :: real
  m20 :: real
  m21 :: real
  m22 :: real
  mtype :: Types

text \<open>\<open>rowMajor\<close> with the type left out: affine when the last row is \<open>0 0 1\<close>.\<close>

definition rowMajor :: "real \<Rightarrow> real \<Rightarrow> real \<Rightarrow> real \<Rightarrow> real \<Rightarrow> real \<Rightarrow> real \<Rightarrow> real \<Rightarrow> real \<Rightarrow> Matrix3" where
  "rowMajor v00 v01 v02 v10 v11 v12 v20 v21 v22 =
     \<lparr>m00 = v00, m01 = v01, m02 = v02, m10 = v10, m11 = v11, m12 = v12,
      m20 = v20, m21 = v21, m22 = v22,
      mtype = (if v20 = 0 \<and> v21 = 0 \<and> v22 = 1 then AFFINE else OTHER)\<rparr>"

definition translation :: "real \<Rightarrow> real \<Rightarrow> Matrix3" where
  "translation tx ty =
     \<lparr>m00 = 1, m01 = 0, m02 = tx, m10 = 0, m11 = 1, m12 = ty, m20 = 0, m21 = 0, m22 = 1,
      mtype = TRANSLATION_2D\<rparr>"

definition scaling :: "real \<Rightarrow> real \<Rightarrow> Matrix3" where
  "scaling sx sy =
     \<lparr>m00 = sx, m01 = 0, m02 = 0, m10 = 0, m11 = sy, m12 = 0, m20 = 0, m21 = 0, m22 = 1,
      mtype = SCALING\<rparr>"

definition rotationZ :: "real \<Rightarrow> Matrix3" where
  "rotationZ a =
     (let c = cos a; s = sin a
      in \<lparr>m00 = c, m01 = - s, m02 = 0, m10 = s, m11 = c, m12 = 0, m20 = 0, m21 = 0, m22 = 1,
          mtype = AFFINE\<rparr>)"

definition rotation2 :: "real \<Rightarrow> Matrix3" where
  "rotation2 a = rotationZ a"

definition timesMatrix :: "Matrix3 \<Rightarrow> Matrix3 \<Rightarrow> Matrix3" where
  "timesMatrix a m =
     (if mtype a = IDENTITY \<or> mtype m = IDENTITY then (if mtype a = IDENTITY then m else a)
      else if mtype a = mtype m \<and> mtype a = TRANSLATION_2D then
        \<lparr>m00 = 1, m01 = 0, m02 = m02 a + m02 m, m10 = 0, m11 = 1, m12 = m12 a + m12 m,
         m20 = 0, m21 = 0, m22 = 1, mtype = TRANSLATION_2D\<rparr>
      else if mtype a = mtype m \<and> mtype a = SCALING then
        \<lparr>m00 = m00 a * m00 m, m01 = 0, m02 = 0, m10 = 0, m11 = m11 a * m11 m, m12 = 0,
         m20 = 0, m21 = 0, m22 = 1, mtype = SCALING\<rparr>
      else if mtype a \<noteq> OTHER \<and> mtype m \<noteq> OTHER then
        \<lparr>m00 = m00 a * m00 m + m01 a * m10 m,
         m01 = m00 a * m01 m + m01 a * m11 m,
         m02 = m00 a * m02 m + m01 a * m12 m + m02 a,
         m10 = m10 a * m00 m + m11 a * m10 m,
         m11 = m10 a * m01 m + m11 a * m11 m,
         m12 = m10 a * m02 m + m11 a * m12 m + m12 a,
         m20 = 0, m21 = 0, m22 = 1, mtype = AFFINE\<rparr>
      else
        rowMajor
          (m00 a * m00 m + m01 a * m10 m + m02 a * m20 m)
          (m00 a * m01 m + m01 a * m11 m + m02 a * m21 m)
          (m00 a * m02 m + m01 a * m12 m + m02 a * m22 m)
          (m10 a * m00 m + m11 a * m10 m + m12 a * m20 m)
          (m10 a * m01 m + m11 a * m11 m + m12 a * m21 m)
          (m10 a * m02 m + m11 a * m12 m + m12 a * m22 m)
          (m20 a * m00 m + m21 a * m10 m + m22 a * m20 m)
          (m20 a * m01 m + m21 a * m11 m + m22 a * m21 m)
          (m20 a * m02 m + m21 a * m12 m + m22 a * m22 m))"

definition getDeterminant :: "Matrix3 \<Rightarrow> real" where
  "getDeterminant a =
     m00 a * m11 a * m22 a + m01 a * m12 a * m20 a + m02 a * m10 a * m21 a
     - m02 a * m11 a * m20 a - m01 a * m10 a * m22 a - m00 a * m12 a * m21 a"

text \<open>
  \<open>inverted\<close>. The scaling case divides without a test; a zero entry would give
  \<open>Infinity\<close>: \<open>NonFinite\<close>.
\<close>

definition inverted :: "Matrix3 \<Rightarrow> error + Matrix3" where
  "inverted a =
     (case mtype a of
        IDENTITY \<Rightarrow> Inr a
      | TRANSLATION_2D \<Rightarrow>
          Inr \<lparr>m00 = 1, m01 = 0, m02 = - m02 a, m10 = 0, m11 = 1, m12 = - m12 a,
               m20 = 0, m21 = 0, m22 = 1, mtype = TRANSLATION_2D\<rparr>
      | SCALING \<Rightarrow>
          if m00 a = 0 \<or> m11 a = 0 \<or> m22 a = 0 then Inl NonFinite
          else Inr \<lparr>m00 = 1 / m00 a, m01 = 0, m02 = 0, m10 = 0, m11 = 1 / m11 a, m12 = 0,
                    m20 = 0, m21 = 0, m22 = 1 / m22 a, mtype = SCALING\<rparr>
      | AFFINE \<Rightarrow>
          (let det = getDeterminant a
           in if det \<noteq> 0 then
                Inr \<lparr>m00 = (- m12 a * m21 a + m11 a * m22 a) / det,
                     m01 = (m02 a * m21 a - m01 a * m22 a) / det,
                     m02 = (- m02 a * m11 a + m01 a * m12 a) / det,
                     m10 = (m12 a * m20 a - m10 a * m22 a) / det,
                     m11 = (- m02 a * m20 a + m00 a * m22 a) / det,
                     m12 = (m02 a * m10 a - m00 a * m12 a) / det,
                     m20 = 0, m21 = 0, m22 = 1, mtype = AFFINE\<rparr>
              else Inl NotInvertible)
      | OTHER \<Rightarrow>
          (let det = getDeterminant a
           in if det \<noteq> 0 then
                Inr \<lparr>m00 = (- m12 a * m21 a + m11 a * m22 a) / det,
                     m01 = (m02 a * m21 a - m01 a * m22 a) / det,
                     m02 = (- m02 a * m11 a + m01 a * m12 a) / det,
                     m10 = (m12 a * m20 a - m10 a * m22 a) / det,
                     m11 = (- m02 a * m20 a + m00 a * m22 a) / det,
                     m12 = (m02 a * m10 a - m00 a * m12 a) / det,
                     m20 = (- m11 a * m20 a + m10 a * m21 a) / det,
                     m21 = (m01 a * m20 a - m00 a * m21 a) / det,
                     m22 = (- m01 a * m10 a + m00 a * m11 a) / det,
                     mtype = OTHER\<rparr>
              else Inl NotInvertible))"

definition timesVector2 :: "Matrix3 \<Rightarrow> Vector2 \<Rightarrow> Vector2" where
  "timesVector2 a v =
     Vector2 (m00 a * vx v + m01 a * vy v + m02 a) (m10 a * vx v + m11 a * vy v + m12 a)"

definition timesTransposeVector2 :: "Matrix3 \<Rightarrow> Vector2 \<Rightarrow> Vector2" where
  "timesTransposeVector2 a v =
     Vector2 (m00 a * vx v + m10 a * vy v) (m01 a * vx v + m11 a * vy v)"

text \<open>
  A Transform3 is its matrix; \<open>getInverse\<close> computes the inverse on first use and keeps
  it, which changes no result.
\<close>

definition transformPosition2 :: "Matrix3 \<Rightarrow> Vector2 \<Rightarrow> Vector2" where
  "transformPosition2 matrix v = timesVector2 matrix v"

definition transformNormal2 :: "Matrix3 \<Rightarrow> Vector2 \<Rightarrow> error + Vector2" where
  "transformNormal2 matrix v =
     bind_e (inverted matrix) (\<lambda>inverse. Inr (timesTransposeVector2 inverse v))"

section \<open>KITE/segments/EllipticalArc\<close>

text \<open>
  The fields the constructor sets before it tests validity, the \<open>invalid\<close> flag and the
  angle difference. The unit arc and the bounds, which the offset curve does not read,
  are left out.
\<close>

record EllipticalArc =
  arc_center :: Vector2
  radiusX :: real
  radiusY :: real
  rotation :: real
  startAngle :: real
  endAngle :: real
  anticlockwise :: bool
  unitTransform :: Matrix3
  arc_start :: Vector2
  arc_end :: Vector2
  arc_startTangent :: Vector2
  arc_endTangent :: Vector2
  arc_invalid :: bool
  angleDifference :: "real option"

definition computeUnitTransform :: "Vector2 \<Rightarrow> real \<Rightarrow> real \<Rightarrow> real \<Rightarrow> Matrix3" where
  "computeUnitTransform c rx ry rot =
     timesMatrix (timesMatrix (translation (vx c) (vy c)) (rotation2 rot)) (scaling rx ry)"

definition positionAtAngle :: "Matrix3 \<Rightarrow> real \<Rightarrow> Vector2" where
  "positionAtAngle ut a = transformPosition2 ut (createPolar 1 a)"

definition tangentAtAngle :: "Matrix3 \<Rightarrow> bool \<Rightarrow> real \<Rightarrow> error + Vector2" where
  "tangentAtAngle ut acw a =
     bind_e (transformNormal2 ut (createPolar 1 a)) (\<lambda>normal.
       Inr (if acw then perpendicular normal else negated (perpendicular normal)))"

definition new_EllipticalArc ::
  "Vector2 \<Rightarrow> real \<Rightarrow> real \<Rightarrow> real \<Rightarrow> real \<Rightarrow> real \<Rightarrow> bool \<Rightarrow> error + EllipticalArc" where
  "new_EllipticalArc c rx ry rot sa ea acw =
     (let ut = computeUnitTransform c rx ry rot
      in bind_e (bind_e (tangentAtAngle ut acw sa) normalized) (\<lambda>st.
         bind_e (bind_e (tangentAtAngle ut acw ea) normalized) (\<lambda>et.
           (let this = \<lparr>arc_center = c, radiusX = rx, radiusY = ry, rotation = rot,
                         startAngle = sa, endAngle = ea, anticlockwise = acw,
                         unitTransform = ut, arc_start = positionAtAngle ut sa,
                         arc_end = positionAtAngle ut ea, arc_startTangent = st,
                         arc_endTangent = et, arc_invalid = False, angleDifference = None\<rparr>
            in if rx = 0 \<or> ry = 0 \<or> sa = ea then Inr (this\<lparr>arc_invalid := True\<rparr>)
               else if rx < ry then Inl NotVerified
               else
                 (let d = (if acw then sa - ea else ea - sa)
                  in Inr (this\<lparr>angleDifference :=
                            Some (if d < 0 then d + pi * 2 else d)\<rparr>))))))"

definition angleAt :: "EllipticalArc \<Rightarrow> real \<Rightarrow> real" where
  "angleAt arc t =
     (if anticlockwise arc then
        (if startAngle arc > endAngle arc then
           startAngle arc + (endAngle arc - startAngle arc) * t
         else if startAngle arc < endAngle arc then
           startAngle arc + (- pi * 2 + endAngle arc - startAngle arc) * t
         else startAngle arc)
      else
        (if startAngle arc < endAngle arc then
           startAngle arc + (endAngle arc - startAngle arc) * t
         else if startAngle arc > endAngle arc then
           startAngle arc + (pi * 2 + endAngle arc - startAngle arc) * t
         else startAngle arc))"

fun mapM_e :: "('a \<Rightarrow> error + 'b) \<Rightarrow> 'a list \<Rightarrow> error + 'b list" where
  "mapM_e f [] = Inr []"
| "mapM_e f (i # is) = bind_e (f i) (\<lambda>v. bind_e (mapM_e f is) (\<lambda>vs. Inr (v # vs)))"

text \<open>One round of the loop of \<open>offsetTo\<close>: the piece pushed for the counter \<open>i\<close>.\<close>

definition offsetTo_piece :: "EllipticalArc \<Rightarrow> real \<Rightarrow> bool \<Rightarrow> nat \<Rightarrow> nat \<Rightarrow> error + piece" where
  "offsetTo_piece arc r reverse quantity i =
     (let ratio0 = real i / (real quantity - 1);
          ratio = (if reverse then 1 - ratio0 else ratio0);
          a = angleAt arc ratio
      in bind_e (tangentAtAngle (unitTransform arc) (anticlockwise arc) a) (\<lambda>tangent.
         bind_e (normalized (perpendicular tangent)) (\<lambda>n.
           Inr (LineTo (plus_v (positionAtAngle (unitTransform arc) a) (times_v n r))))))"

definition offsetTo :: "EllipticalArc \<Rightarrow> real \<Rightarrow> bool \<Rightarrow> error + piece list" where
  "offsetTo arc r reverse =
     (let quantity = 32
      in mapM_e (offsetTo_piece arc r reverse quantity) [1..<quantity])"

definition strokeLeft :: "EllipticalArc \<Rightarrow> real \<Rightarrow> error + piece list" where
  "strokeLeft arc w = offsetTo arc (- w / 2) False"

definition strokeRight :: "EllipticalArc \<Rightarrow> real \<Rightarrow> error + piece list" where
  "strokeRight arc w = offsetTo arc (w / 2) True"

section \<open>Verified properties\<close>

subsection \<open>Quadratic: bounds\<close>

lemma Vector2_eqI: "vx a = vx b \<Longrightarrow> vy a = vy b \<Longrightarrow> a = b"
  by (cases a, cases b) simp

lemma positionAt_0: "positionAt q 0 = q_start q"
  by (cases q) (simp add: positionAt_def Let_def plus_v_def times_v_def timesScalar_def)

lemma positionAt_1: "positionAt q 1 = q_end q"
  by (cases q) (simp add: positionAt_def Let_def plus_v_def times_v_def timesScalar_def)

lemma quad1d_lower:
  fixes s c e t :: real
  assumes "0 \<le> t" "t \<le> 1"
  shows "min (min s e) (case extremaT s c e of
            Some u \<Rightarrow> if 0 < u \<and> u < 1 then (1-u)*(1-u)*s + 2*(1-u)*u*c + u*u*e else min s e
          | None \<Rightarrow> min s e)
         \<le> (1-t)*(1-t)*s + 2*(1-t)*t*c + t*t*e"
proof -
  define a where "a = e - 2*c + s"
  define b where "b = c - s"
  define X where "X = (\<lambda>t::real. (1-t)*(1-t)*s + 2*(1-t)*t*c + t*t*e)"
  have Xalt: "X u = s + 2*b*u + a*u*u" for u
    unfolding X_def a_def b_def by (simp add: algebra_simps)
  have chord: "X t = (1-t)*s + t*e - a * (t*(1-t))"
    unfolding X_def a_def by (simp add: algebra_simps)
  have tt: "0 \<le> t*(1-t)" using assms by simp
  have lin: "min s e \<le> (1-t)*s + t*e"
  proof -
    have "min s e = (1-t) * min s e + t * min s e" by (simp add: algebra_simps)
    also have "\<dots> \<le> (1-t)*s + t*e"
      using assms by (intro add_mono mult_left_mono) auto
    finally show ?thesis .
  qed
  show ?thesis
  proof (cases "a \<le> 0")
    case True
    then have "a * (t*(1-t)) \<le> 0" using tt by (simp add: mult_nonpos_nonneg)
    then have "min s e \<le> X t" using lin chord by linarith
    then show ?thesis unfolding X_def by (simp add: min.coboundedI1)
  next
    case False
    then have apos: "a > 0" by simp
    define u where "u = - b / a"
    have ex: "extremaT s c e = Some u"
      using apos unfolding extremaT_def u_def a_def b_def Let_def by (simp add: field_simps)
    have ba: "b = - a * u" using apos unfolding u_def by simp
    have sq: "X t - X u = a * ((t-u)*(t-u))"
      unfolding Xalt ba by (simp add: algebra_simps)
    have X0: "X 0 = s" and X1: "X 1 = e" unfolding X_def by simp_all
    consider "0 < u \<and> u < 1" | "u \<le> 0" | "u \<ge> 1" by linarith
    then show ?thesis
    proof cases
      case 1
      have "X u \<le> X t" using sq apos by (smt (verit) mult_nonneg_nonneg zero_le_square)
      then show ?thesis using 1 ex unfolding X_def by (simp add: min.coboundedI2)
    next
      case 2
      have "X t - s = t * (a * (t - 2*u))" unfolding Xalt ba by (simp add: algebra_simps)
      moreover have "0 \<le> t * (a * (t - 2*u))" using assms apos 2 by (intro mult_nonneg_nonneg) auto
      ultimately have "s \<le> X t" by linarith
      then show ?thesis unfolding X_def by (simp add: min.coboundedI1)
    next
      case 3
      have "X t - e = (1 - t) * (a * (2*u - t - 1))"
        using X1 unfolding Xalt ba by (simp add: algebra_simps)
      moreover have "0 \<le> (1 - t) * (a * (2*u - t - 1))" using assms apos 3 by (intro mult_nonneg_nonneg) auto
      ultimately have "e \<le> X t" by linarith
      then show ?thesis unfolding X_def by (simp add: min.coboundedI1)
    qed
  qed
qed


lemma extremaT_uminus: "extremaT (- s) (- c) (- e) = extremaT s c e"
  unfolding extremaT_def Let_def by (auto simp: field_simps)

lemma quad1d_upper:
  fixes s c e t :: real
  assumes "0 \<le> t" "t \<le> 1"
  shows "(1-t)*(1-t)*s + 2*(1-t)*t*c + t*t*e \<le>
         max (max s e) (case extremaT s c e of
            Some u \<Rightarrow> if 0 < u \<and> u < 1 then (1-u)*(1-u)*s + 2*(1-u)*u*c + u*u*e else max s e
          | None \<Rightarrow> max s e)"
proof -
  have "min (min (-s) (-e)) (case extremaT (-s) (-c) (-e) of
            Some u \<Rightarrow> if 0 < u \<and> u < 1 then (1-u)*(1-u)*(-s) + 2*(1-u)*u*(-c) + u*u*(-e) else min (-s) (-e)
          | None \<Rightarrow> min (-s) (-e))
         \<le> (1-t)*(1-t)*(-s) + 2*(1-t)*t*(-c) + t*t*(-e)"
    using assms by (rule quad1d_lower)
  then show ?thesis
    unfolding extremaT_uminus
    by (cases "extremaT s c e") (auto simp: min_def max_def split: if_splits)
qed


lemma positionAt_vx: "vx (positionAt q t) = bernstein2 (vx (q_start q)) (vx (q_control q)) (vx (q_end q)) t"
  by (simp add: bernstein2_def positionAt_def Let_def plus_v_def times_v_def timesScalar_def algebra_simps)

lemma positionAt_vy: "vy (positionAt q t) = bernstein2 (vy (q_start q)) (vy (q_control q)) (vy (q_end q)) t"
  by (simp add: bernstein2_def positionAt_def Let_def plus_v_def times_v_def timesScalar_def algebra_simps)

lemma bernstein2_lower_None:
  assumes "0 \<le> t" "t \<le> 1" "extremaT s c e = None"
  shows "min s e \<le> bernstein2 s c e t"
  using quad1d_lower[OF assms(1,2), where s=s and c=c and e=e] assms(3)
  by (simp add: bernstein2_def)

lemma bernstein2_lower_out:
  assumes "0 \<le> t" "t \<le> 1" "extremaT s c e = Some u" "\<not> (0 < u \<and> u < 1)"
  shows "min s e \<le> bernstein2 s c e t"
  using quad1d_lower[OF assms(1,2), where s=s and c=c and e=e] assms(3,4)
  by (simp add: bernstein2_def)

lemma bernstein2_lower_in:
  assumes "0 \<le> t" "t \<le> 1" "extremaT s c e = Some u" "0 < u \<and> u < 1"
  shows "min (min s e) (bernstein2 s c e u) \<le> bernstein2 s c e t"
  using quad1d_lower[OF assms(1,2), where s=s and c=c and e=e] assms(3,4)
  by (simp add: bernstein2_def)

lemma bernstein2_upper_None:
  assumes "0 \<le> t" "t \<le> 1" "extremaT s c e = None"
  shows "bernstein2 s c e t \<le> max s e"
  using quad1d_upper[OF assms(1,2), where s=s and c=c and e=e] assms(3)
  by (simp add: bernstein2_def)

lemma bernstein2_upper_out:
  assumes "0 \<le> t" "t \<le> 1" "extremaT s c e = Some u" "\<not> (0 < u \<and> u < 1)"
  shows "bernstein2 s c e t \<le> max s e"
  using quad1d_upper[OF assms(1,2), where s=s and c=c and e=e] assms(3,4)
  by (simp add: bernstein2_def)

lemma bernstein2_upper_in:
  assumes "0 \<le> t" "t \<le> 1" "extremaT s c e = Some u" "0 < u \<and> u < 1"
  shows "bernstein2 s c e t \<le> max (max s e) (bernstein2 s c e u)"
  using quad1d_upper[OF assms(1,2), where s=s and c=c and e=e] assms(3,4)
  by (simp add: bernstein2_def)

text \<open>One axis: a box whose x-range covers both end points, extended at the x-critical parameter.\<close>

lemma withCritical_covers_x:
  assumes t: "0 \<le> t" "t \<le> 1"
    and b: "minX b \<le> min (vx (q_start c)) (vx (q_end c))" "max (vx (q_start c)) (vx (q_end c)) \<le> maxX b"
  shows "minX (withCritical c (extremaT (vx (q_start c)) (vx (q_control c)) (vx (q_end c))) b) \<le> vx (positionAt c t)
       \<and> vx (positionAt c t) \<le> maxX (withCritical c (extremaT (vx (q_start c)) (vx (q_control c)) (vx (q_end c))) b)"
proof (cases "extremaT (vx (q_start c)) (vx (q_control c)) (vx (q_end c))")
  case None
  from bernstein2_lower_None[OF t None] bernstein2_upper_None[OF t None] b
  show ?thesis unfolding None by (simp add: withCritical_def positionAt_vx) linarith
next
  case (Some u)
  show ?thesis
  proof (cases "0 < u \<and> u < 1")
    case True
    from bernstein2_lower_in[OF t Some True] bernstein2_upper_in[OF t Some True] b True
    show ?thesis unfolding Some
      by (simp add: withCritical_def withPoint_def withCoordinates_def positionAt_vx) linarith
  next
    case False
    from bernstein2_lower_out[OF t Some False] bernstein2_upper_out[OF t Some False] b False
    show ?thesis unfolding Some by (simp add: withCritical_def positionAt_vx) linarith
  qed
qed

lemma withCritical_covers_y:
  assumes t: "0 \<le> t" "t \<le> 1"
    and b: "minY b \<le> min (vy (q_start c)) (vy (q_end c))" "max (vy (q_start c)) (vy (q_end c)) \<le> maxY b"
  shows "minY (withCritical c (extremaT (vy (q_start c)) (vy (q_control c)) (vy (q_end c))) b) \<le> vy (positionAt c t)
       \<and> vy (positionAt c t) \<le> maxY (withCritical c (extremaT (vy (q_start c)) (vy (q_control c)) (vy (q_end c))) b)"
proof (cases "extremaT (vy (q_start c)) (vy (q_control c)) (vy (q_end c))")
  case None
  from bernstein2_lower_None[OF t None] bernstein2_upper_None[OF t None] b
  show ?thesis unfolding None by (simp add: withCritical_def positionAt_vy) linarith
next
  case (Some u)
  show ?thesis
  proof (cases "0 < u \<and> u < 1")
    case True
    from bernstein2_lower_in[OF t Some True] bernstein2_upper_in[OF t Some True] b True
    show ?thesis unfolding Some
      by (simp add: withCritical_def withPoint_def withCoordinates_def positionAt_vy) linarith
  next
    case False
    from bernstein2_lower_out[OF t Some False] bernstein2_upper_out[OF t Some False] b False
    show ?thesis unfolding Some by (simp add: withCritical_def positionAt_vy) linarith
  qed
qed

lemma withCritical_mono:
  "minX (withCritical c u b) \<le> minX b \<and> minY (withCritical c u b) \<le> minY b \<and>
   maxX b \<le> maxX (withCritical c u b) \<and> maxY b \<le> maxY (withCritical c u b)"
  by (cases u) (simp_all add: withCritical_def withPoint_def withCoordinates_def)

lemma getBounds_fresh:
  assumes "f_bounds q = None" "f_tCriticalX q = None" "f_tCriticalY q = None"
  shows "fst (getBounds h q) =
     withCritical (deref h q)
       (extremaT (vy (h (f_start q))) (vy (h (f_control q))) (vy (h (f_end q))))
       (withCritical (deref h q)
          (extremaT (vx (h (f_start q))) (vx (h (f_control q))) (vx (h (f_end q))))
          (Bounds2 (min (vx (h (f_start q))) (vx (h (f_end q)))) (min (vy (h (f_start q))) (vy (h (f_end q))))
                   (max (vx (h (f_start q))) (vx (h (f_end q)))) (max (vy (h (f_start q))) (vy (h (f_end q))))))"
  using assms by (simp add: getBounds_def getTCriticalX_def getTCriticalY_def Let_def deref_def)

lemma two_critical_contains:
  assumes t: "0 \<le> t" "t \<le> 1"
  shows "containsPoint
     (withCritical c (extremaT (vy (q_start c)) (vy (q_control c)) (vy (q_end c)))
       (withCritical c (extremaT (vx (q_start c)) (vx (q_control c)) (vx (q_end c)))
          (Bounds2 (min (vx (q_start c)) (vx (q_end c))) (min (vy (q_start c)) (vy (q_end c)))
                   (max (vx (q_start c)) (vx (q_end c))) (max (vy (q_start c)) (vy (q_end c))))))
     (positionAt c t)"
proof -
  let ?ex = "extremaT (vx (q_start c)) (vx (q_control c)) (vx (q_end c))"
  let ?ey = "extremaT (vy (q_start c)) (vy (q_control c)) (vy (q_end c))"
  let ?b0 = "Bounds2 (min (vx (q_start c)) (vx (q_end c))) (min (vy (q_start c)) (vy (q_end c)))
                   (max (vx (q_start c)) (vx (q_end c))) (max (vy (q_start c)) (vy (q_end c)))"
  let ?b1 = "withCritical c ?ex ?b0"
  let ?b2 = "withCritical c ?ey ?b1"
  have x1: "minX ?b1 \<le> vx (positionAt c t) \<and> vx (positionAt c t) \<le> maxX ?b1"
    by (rule withCritical_covers_x[OF t]) simp_all
  have y0: "minY ?b1 \<le> minY ?b0 \<and> maxY ?b0 \<le> maxY ?b1"
    using withCritical_mono[of c ?ex ?b0] by blast
  have y2: "minY ?b2 \<le> vy (positionAt c t) \<and> vy (positionAt c t) \<le> maxY ?b2"
    by (rule withCritical_covers_y[OF t]) (use y0 in simp_all)
  have x2: "minX ?b2 \<le> minX ?b1 \<and> maxX ?b1 \<le> maxX ?b2"
    using withCritical_mono[of c ?ey ?b1] by blast
  from x1 x2 y2 show ?thesis
    unfolding containsPoint_def containsCoordinates_def by linarith
qed

lemma deref_sel:
  "q_start (deref h q) = h (f_start q)" "q_control (deref h q) = h (f_control q)"
  "q_end (deref h q) = h (f_end q)"
  by (simp_all add: deref_def)

lemma getTCriticalX_coherent:
  assumes "coherent h q"
  shows "fst (getTCriticalX h q) = extremaT (vx (h (f_start q))) (vx (h (f_control q))) (vx (h (f_end q)))"
    and "coherent h (snd (getTCriticalX h q))"
    and "deref h (snd (getTCriticalX h q)) = deref h q"
    and "f_bounds (snd (getTCriticalX h q)) = f_bounds q"
  using assms
  by (cases "f_tCriticalX q"; simp add: coherent_def getTCriticalX_def Let_def deref_def)+

lemma getTCriticalY_coherent:
  assumes "coherent h q"
  shows "fst (getTCriticalY h q) = extremaT (vy (h (f_start q))) (vy (h (f_control q))) (vy (h (f_end q)))"
    and "coherent h (snd (getTCriticalY h q))"
    and "deref h (snd (getTCriticalY h q)) = deref h q"
    and "f_bounds (snd (getTCriticalY h q)) = f_bounds q"
  using assms
  by (cases "f_tCriticalY q"; simp add: coherent_def getTCriticalY_def Let_def deref_def)+

lemma getBounds_coherent:
  assumes "coherent h q"
  shows "fst (getBounds h q) = boundsOf (deref h q)"
    and "coherent h (snd (getBounds h q))"
    and "f_bounds (snd (getBounds h q)) = Some (boundsOf (deref h q))"
proof -
  let ?x = "getTCriticalX h q"
  let ?y = "getTCriticalY h (snd ?x)"
  note x = getTCriticalX_coherent[OF assms]
  note y = getTCriticalY_coherent[OF x(2)]
  have d: "deref h (snd ?y) = deref h q" using x(3) y(3) by simp
  have fy: "fst ?y = extremaT (vy (h (f_start q))) (vy (h (f_control q))) (vy (h (f_end q)))"
    using y(1) x(3) by (simp add: deref_def)
  have none: "fst (getBounds h q) = boundsOf (deref h q)
      \<and> coherent h (snd (getBounds h q))
      \<and> f_bounds (snd (getBounds h q)) = Some (boundsOf (deref h q))" if n: "f_bounds q = None"
  proof -
    have g: "getBounds h q = (boundsOf (deref h q), (snd ?y)\<lparr>f_bounds := Some (boundsOf (deref h q))\<rparr>)"
      using n by (simp add: getBounds_def Let_def d x(1) fy boundsOf_def deref_sel)
    have "coherent h ((snd ?y)\<lparr>f_bounds := Some (boundsOf (deref h q))\<rparr>)"
      using y(2) d by (simp add: coherent_def deref_def)
    with g show ?thesis by simp
  qed
  have some: "fst (getBounds h q) = boundsOf (deref h q)
      \<and> coherent h (snd (getBounds h q))
      \<and> f_bounds (snd (getBounds h q)) = Some (boundsOf (deref h q))" if s: "f_bounds q = Some b" for b
  proof -
    have "b = boundsOf (deref h q)" using assms s by (simp add: coherent_def)
    then show ?thesis using s assms by (simp add: getBounds_def)
  qed
  from none some show "fst (getBounds h q) = boundsOf (deref h q)"
    "coherent h (snd (getBounds h q))"
    "f_bounds (snd (getBounds h q)) = Some (boundsOf (deref h q))"
    by (cases "f_bounds q"; blast)+
qed

lemma coherent_invalidate: "coherent h (invalidate q)"
  by (simp add: coherent_def invalidate_def)

lemma coherent_new: "coherent h (new_Quadratic s c e)"
  by (simp add: new_Quadratic_def coherent_invalidate)

lemma coherent_setter: "coherent h q \<Longrightarrow> coherent h (setter name v q)"
  by (simp add: setter_def coherent_invalidate)

text \<open>
  In exact arithmetic the box contains the whole curve: for every object whose caches are
  null or computed from the points held, and every \<open>t\<close> in \<open>[0,1]\<close>, the box of
  \<open>getBounds\<close> contains \<open>positionAt(t)\<close>. Per axis the quadratic stays between its end
  values and its value at the interior critical parameter.
\<close>

lemma getBounds_exact_contains_positionAt:
  assumes "coherent h q" "0 \<le> t" "t \<le> 1"
  shows "containsPoint (fst (getBounds h q)) (positionAt (deref h q) t)"
  unfolding getBounds_coherent(1)[OF assms(1)] boundsOf_def
  by (rule two_critical_contains[OF assms(2,3)])

subsection \<open>Quadratic: bounds in double arithmetic\<close>

text \<open>With the identity for the rounding, the rounded methods are the exact ones.\<close>

lemma positionAt_fl_exact: "positionAt_fl (\<lambda>x. x) c t = positionAt c t"
  by (simp add: positionAt_fl_def positionAt_def plus_fl_def plus_v_def times_fl_def times_v_def
      timesScalar_def Let_def)

lemma extremaT_fl_exact: "extremaT_fl (\<lambda>x. x) s c e = extremaT s c e"
  by (simp add: extremaT_fl_def extremaT_def Let_def)

lemma withCritical_fl_exact: "withCritical_fl (\<lambda>x. x) c u b = withCritical c u b"
  by (cases u) (simp_all add: withCritical_fl_def withCritical_def positionAt_fl_exact)

lemma getTCriticalX_fl_exact: "getTCriticalX_fl (\<lambda>x. x) h q = getTCriticalX h q"
  by (cases "f_tCriticalX q")
     (simp_all add: getTCriticalX_fl_def getTCriticalX_def extremaT_fl_exact)

lemma getTCriticalY_fl_exact: "getTCriticalY_fl (\<lambda>x. x) h q = getTCriticalY h q"
  by (cases "f_tCriticalY q")
     (simp_all add: getTCriticalY_fl_def getTCriticalY_def extremaT_fl_exact)

lemma getBounds_fl_exact: "getBounds_fl (\<lambda>x. x) h q = getBounds h q"
  by (cases "f_bounds q")
     (simp_all add: getBounds_fl_def getBounds_def getTCriticalX_fl_exact getTCriticalY_fl_exact
        withCritical_fl_exact)

lemma boundsOf_fl_exact: "boundsOf_fl (\<lambda>x. x) c = boundsOf c"
  by (simp add: boundsOf_fl_def boundsOf_def withCritical_fl_exact extremaT_fl_exact)

lemma coherent_fl_exact: "coherent_fl (\<lambda>x. x) h q = coherent h q"
  by (simp add: coherent_fl_def coherent_def boundsOf_fl_exact extremaT_fl_exact)

lemma exact_arithmetic_contains_positionAt:
  assumes "coherent_fl (\<lambda>x. x) h q" "0 \<le> t" "t \<le> 1"
  shows "containsPoint (fst (getBounds_fl (\<lambda>x. x) h q)) (positionAt_fl (\<lambda>x. x) (deref h q) t)"
  unfolding getBounds_fl_exact positionAt_fl_exact
  using assms(1) by (intro getBounds_exact_contains_positionAt assms(2,3)) (simp add: coherent_fl_exact)

text \<open>Whatever the rounding, a box extended by a point contains it and what it contained.\<close>

lemma withPoint_contains: "containsPoint (withPoint b p) p"
  by (simp add: containsPoint_def containsCoordinates_def withPoint_def withCoordinates_def)

lemma withPoint_keeps: "containsPoint b p \<Longrightarrow> containsPoint (withPoint b v) p"
  by (simp add: containsPoint_def containsCoordinates_def withPoint_def withCoordinates_def
      min_le_iff_disj le_max_iff_disj)

lemma withCritical_fl_keeps: "containsPoint b p \<Longrightarrow> containsPoint (withCritical_fl rnd c u b) p"
  by (cases u) (simp_all add: withCritical_fl_def withPoint_keeps)

lemma withCritical_fl_contains:
  "0 < t \<Longrightarrow> t < 1 \<Longrightarrow> containsPoint (withCritical_fl rnd c (Some t) b) (positionAt_fl rnd c t)"
  by (simp add: withCritical_fl_def withPoint_contains)

lemma corners_contain_ends:
  "containsPoint (Bounds2 (min (vx s) (vx e)) (min (vy s) (vy e)) (max (vx s) (vx e)) (max (vy s) (vy e))) s"
  "containsPoint (Bounds2 (min (vx s) (vx e)) (min (vy s) (vy e)) (max (vx s) (vx e)) (max (vy s) (vy e))) e"
  by (simp_all add: containsPoint_def containsCoordinates_def)

lemma boundsOf_fl_contains_ends:
  "containsPoint (boundsOf_fl rnd c) (q_start c)" "containsPoint (boundsOf_fl rnd c) (q_end c)"
  unfolding boundsOf_fl_def
  by (intro withCritical_fl_keeps corners_contain_ends)+

lemma boundsOf_fl_contains_critical_x:
  assumes "extremaT_fl rnd (vx (q_start c)) (vx (q_control c)) (vx (q_end c)) = Some t" "0 < t" "t < 1"
  shows "containsPoint (boundsOf_fl rnd c) (positionAt_fl rnd c t)"
  unfolding boundsOf_fl_def assms(1)
  by (intro withCritical_fl_keeps withCritical_fl_contains assms(2,3))

lemma boundsOf_fl_contains_critical_y:
  assumes "extremaT_fl rnd (vy (q_start c)) (vy (q_control c)) (vy (q_end c)) = Some t" "0 < t" "t < 1"
  shows "containsPoint (boundsOf_fl rnd c) (positionAt_fl rnd c t)"
  unfolding boundsOf_fl_def assms(1)
  by (intro withCritical_fl_contains assms(2,3))

lemma getTCriticalX_fl_coherent:
  assumes "coherent_fl rnd h q"
  shows "fst (getTCriticalX_fl rnd h q)
      = extremaT_fl rnd (vx (h (f_start q))) (vx (h (f_control q))) (vx (h (f_end q)))"
    and "coherent_fl rnd h (snd (getTCriticalX_fl rnd h q))"
    and "deref h (snd (getTCriticalX_fl rnd h q)) = deref h q"
    and "f_bounds (snd (getTCriticalX_fl rnd h q)) = f_bounds q"
  using assms
  by (cases "f_tCriticalX q"; simp add: coherent_fl_def getTCriticalX_fl_def Let_def deref_def)+

lemma getTCriticalY_fl_coherent:
  assumes "coherent_fl rnd h q"
  shows "fst (getTCriticalY_fl rnd h q)
      = extremaT_fl rnd (vy (h (f_start q))) (vy (h (f_control q))) (vy (h (f_end q)))"
    and "coherent_fl rnd h (snd (getTCriticalY_fl rnd h q))"
    and "deref h (snd (getTCriticalY_fl rnd h q)) = deref h q"
    and "f_bounds (snd (getTCriticalY_fl rnd h q)) = f_bounds q"
  using assms
  by (cases "f_tCriticalY q"; simp add: coherent_fl_def getTCriticalY_fl_def Let_def deref_def)+

lemma getBounds_fl_coherent:
  assumes "coherent_fl rnd h q"
  shows "fst (getBounds_fl rnd h q) = boundsOf_fl rnd (deref h q)"
    and "coherent_fl rnd h (snd (getBounds_fl rnd h q))"
    and "f_bounds (snd (getBounds_fl rnd h q)) = Some (boundsOf_fl rnd (deref h q))"
proof -
  let ?x = "getTCriticalX_fl rnd h q"
  let ?y = "getTCriticalY_fl rnd h (snd ?x)"
  note x = getTCriticalX_fl_coherent[OF assms]
  note y = getTCriticalY_fl_coherent[OF x(2)]
  have d: "deref h (snd ?y) = deref h q" using x(3) y(3) by simp
  have fy: "fst ?y = extremaT_fl rnd (vy (h (f_start q))) (vy (h (f_control q))) (vy (h (f_end q)))"
    using y(1) x(3) by (simp add: deref_def)
  have none: "fst (getBounds_fl rnd h q) = boundsOf_fl rnd (deref h q)
      \<and> coherent_fl rnd h (snd (getBounds_fl rnd h q))
      \<and> f_bounds (snd (getBounds_fl rnd h q)) = Some (boundsOf_fl rnd (deref h q))"
    if n: "f_bounds q = None"
  proof -
    have g: "getBounds_fl rnd h q
        = (boundsOf_fl rnd (deref h q), (snd ?y)\<lparr>f_bounds := Some (boundsOf_fl rnd (deref h q))\<rparr>)"
      using n by (simp add: getBounds_fl_def Let_def d x(1) fy boundsOf_fl_def deref_sel)
    have "coherent_fl rnd h ((snd ?y)\<lparr>f_bounds := Some (boundsOf_fl rnd (deref h q))\<rparr>)"
      using y(2) d by (simp add: coherent_fl_def deref_def)
    with g show ?thesis by simp
  qed
  have some: "fst (getBounds_fl rnd h q) = boundsOf_fl rnd (deref h q)
      \<and> coherent_fl rnd h (snd (getBounds_fl rnd h q))
      \<and> f_bounds (snd (getBounds_fl rnd h q)) = Some (boundsOf_fl rnd (deref h q))"
    if s: "f_bounds q = Some b" for b
  proof -
    have "b = boundsOf_fl rnd (deref h q)" using assms s by (simp add: coherent_fl_def)
    then show ?thesis using s assms by (simp add: getBounds_fl_def)
  qed
  from none some show "fst (getBounds_fl rnd h q) = boundsOf_fl rnd (deref h q)"
    "coherent_fl rnd h (snd (getBounds_fl rnd h q))"
    "f_bounds (snd (getBounds_fl rnd h q)) = Some (boundsOf_fl rnd (deref h q))"
    by (cases "f_bounds q"; blast)+
qed

lemma coherent_fl_invalidate: "coherent_fl rnd h (invalidate q)"
  by (simp add: coherent_fl_def invalidate_def)

lemma coherent_fl_new: "coherent_fl rnd h (new_Quadratic s c e)"
  by (simp add: new_Quadratic_def coherent_fl_invalidate)

lemma coherent_fl_setter: "coherent_fl rnd h q \<Longrightarrow> coherent_fl rnd h (setter name v q)"
  by (simp add: setter_def coherent_fl_invalidate)

lemma positionAt_fl_0:
  assumes "rnd 0 = 0" "rnd 1 = 1" "rnd (vx (q_start c)) = vx (q_start c)"
    "rnd (vy (q_start c)) = vy (q_start c)"
  shows "positionAt_fl rnd c 0 = q_start c"
  using assms by (simp add: positionAt_fl_def plus_fl_def times_fl_def Let_def)

lemma positionAt_fl_1:
  assumes "rnd 0 = 0" "rnd 1 = 1" "rnd (vx (q_end c)) = vx (q_end c)"
    "rnd (vy (q_end c)) = vy (q_end c)"
  shows "positionAt_fl rnd c 1 = q_end c"
  using assms by (simp add: positionAt_fl_def plus_fl_def times_fl_def Let_def)

text \<open>
  Rounding to a double, evaluated: when \<open>x * 2^j\<close> lies in \<open>[2^52, 2^53)\<close> in absolute
  value, \<open>double_round x\<close> is \<open>x * 2^j\<close> rounded to an integer, over \<open>2^j\<close>.
\<close>

lemma floor_log2_scaled:
  fixes x :: real
  assumes "2 ^ 52 \<le> \<bar>x\<bar> * 2 ^ j" "\<bar>x\<bar> * 2 ^ j < 2 ^ 53"
  shows "\<lfloor>log 2 \<bar>x\<bar>\<rfloor> = 52 - int j"
proof -
  have x: "0 < \<bar>x\<bar>" using assms(1) by (cases "x = 0") auto
  have p: "(2::real) powr (of_int (52 - int j)) = 2 ^ 52 / 2 ^ j"
  proof -
    have "(2::real) powr (of_int (52 - int j)) = 2 powr (real 52 - real j)" by simp
    also have "\<dots> = 2 powr (real 52) / 2 powr (real j)" by (rule powr_diff)
    also have "\<dots> = 2 ^ 52 / 2 ^ j" by (simp only: powr_realpow[of 2, OF zero_less_numeral])
    finally show ?thesis .
  qed
  have q: "(2::real) powr (of_int (52 - int j + 1)) = 2 ^ 53 / 2 ^ j"
  proof -
    have "(2::real) powr (of_int (52 - int j + 1)) = 2 powr (real 53 - real j)" by simp
    also have "\<dots> = 2 powr (real 53) / 2 powr (real j)" by (rule powr_diff)
    also have "\<dots> = 2 ^ 53 / 2 ^ j" by (simp only: powr_realpow[of 2, OF zero_less_numeral])
    finally show ?thesis .
  qed
  have "2 powr (of_int (52 - int j)) \<le> \<bar>x\<bar> \<and> \<bar>x\<bar> < 2 powr (of_int (52 - int j + 1))"
    unfolding p q using assms by (simp add: field_simps)
  then show ?thesis
    using floor_log_eq_powr_iff[of "\<bar>x\<bar>" 2 "52 - int j"] x by simp
qed

lemma double_round_eval:
  fixes x :: real
  assumes "2 ^ 52 \<le> \<bar>x\<bar> * 2 ^ j" "\<bar>x\<bar> * 2 ^ j < 2 ^ 53"
  shows "double_round x = of_int (round_half_even (x * 2 ^ j)) / 2 ^ j"
proof -
  have x: "x \<noteq> 0" using assms(1) by auto
  have e: "\<lfloor>log 2 \<bar>x\<bar>\<rfloor> - 52 = - int j" using floor_log2_scaled[OF assms] by simp
  have s: "pow2 (- int j) = 1 / 2 ^ j" by (simp add: pow2_def)
  show ?thesis using x by (simp add: double_round_def Let_def e s)
qed

lemma double_round_significand:
  fixes x :: real
  assumes "2 ^ 52 \<le> \<bar>x\<bar> * 2 ^ j" "\<bar>x\<bar> * 2 ^ j < 2 ^ 53"
    and "m = of_int (round_half_even (x * 2 ^ j))"
  shows "double_round x = m / 2 ^ j"
  using double_round_eval[OF assms(1,2)] assms(3) by simp

lemma double_round_0: "double_round 0 = 0"
  by (simp add: double_round_def)

text \<open>The roundings that the examples below meet.\<close>

lemma example_roundings:
  "double_round (3 / 10) = 5404319552844595 / 2 ^ 54"
  "double_round (9 / 5) = 8106479329266893 / 2 ^ 52"
  "double_round (13 / 10) = 5854679515581645 / 2 ^ 52"
  "double_round (8106479329266893 / 2251799813685248) = 8106479329266893 / 2 ^ 51"
  "double_round (- (10358279142952141 / 4503599627370496)) = - 5179139571476070 / 2 ^ 51"
  "double_round (- (36028797018963965 / 18014398509481984)) = - 9007199254740991 / 2 ^ 52"
  "double_round (- (9007199254740991 / 2251799813685248)) = - 9007199254740991 / 2 ^ 51"
  "double_round (27021597764222977 / 18014398509481984) = 6755399441055744 / 2 ^ 52"
  "double_round (- 3) = - 6755399441055744 / 2 ^ 51"
  "double_round (6755399441055744 / 9007199254740991) = 6755399441055745 / 2 ^ 53"
  "double_round 2 = 4503599627370496 / 2 ^ 51"
  "double_round (- 2) = - 4503599627370496 / 2 ^ 51"
  "double_round (- 4) = - 4503599627370496 / 2 ^ 50"
  "double_round 1 = 4503599627370496 / 2 ^ 52"
  "double_round (1 / 2) = 4503599627370496 / 2 ^ 53"
  "double_round (2251799813685247 / 9007199254740992) = 9007199254740988 / 2 ^ 55"
  "double_round (5070602400912913102387185451009 / 81129638414606681695789005144064) = 9007199254740984 / 2 ^ 57"
  "double_round (6084722881095495497684641172685 / 324518553658426726783156020576256) = 5404319552844590 / 2 ^ 58"
  "double_round (2251799813685247 / 4503599627370496) = 9007199254740988 / 2 ^ 54"
  "double_round (15211807202738748314360811094015 / 40564819207303340847894502572032) = 6755399441055742 / 2 ^ 54"
  "double_round (27381252964929747641389404074803 / 40564819207303340847894502572032) = 6079859496950168 / 2 ^ 53"
  "double_round (3377699720527871 / 9007199254740992) = 6755399441055742 / 2 ^ 54"
  "double_round (99979911727624983 / 144115188075855872) = 6248744482976561 / 2 ^ 53"
  "double_round (45635421608216271964680197505025 / 81129638414606681695789005144064) = 5066549580791810 / 2 ^ 53"
  "double_round (14831512022670290358845901163725 / 20282409603651670423947251286016) = 6586514455029353 / 2 ^ 53"
  "double_round (6417629469002957 / 4503599627370496) = 6417629469002957 / 2 ^ 52"
  "double_round (1 / 4) = 4503599627370496 / 2 ^ 54"
  "double_round (5404319552844595 / 72057594037927936) = 5404319552844595 / 2 ^ 56"
  "double_round (8106479329266893 / 9007199254740992) = 8106479329266893 / 2 ^ 53"
  "double_round (70256154186979739 / 72057594037927936) = 8782019273372467 / 2 ^ 53"
  "double_round (5854679515581645 / 18014398509481984) = 5854679515581645 / 2 ^ 54"
  "double_round (23418718062326579 / 18014398509481984) = 5854679515581645 / 2 ^ 52"
  "double_round (1 / 16) = 4503599627370496 / 2 ^ 56"
  "double_round (5404319552844595 / 288230376151711744) = 5404319552844595 / 2 ^ 58"
  "double_round (3 / 8) = 6755399441055744 / 2 ^ 54"
  "double_round (24319437987800679 / 36028797018963968) = 6079859496950170 / 2 ^ 53"
  "double_round (199959823455250035 / 288230376151711744) = 6248744482976564 / 2 ^ 53"
  "double_round (9 / 16) = 5066549580791808 / 2 ^ 53"
  "double_round (52692115640234805 / 72057594037927936) = 6586514455029351 / 2 ^ 53"
  "double_round (12835258938005915 / 9007199254740992) = 6417629469002958 / 2 ^ 52"
  "double_round (5404319552844595 / 18014398509481984) = 5404319552844595 / 2 ^ 54"
  "double_round (5854679515581645 / 4503599627370496) = 5854679515581645 / 2 ^ 52"
  "double_round (8106479329266893 / 4503599627370496) = 8106479329266893 / 2 ^ 52"
  "double_round 4 = 4503599627370496 / 2 ^ 50"
  "double_round (- 8) = - 4503599627370496 / 2 ^ 49"
  "double_round 10 = 5629499534213120 / 2 ^ 49"
  "double_round 8 = 4503599627370496 / 2 ^ 49"
  "double_round 16 = 4503599627370496 / 2 ^ 48"
  "double_round (- (1 / 8)) = - 4503599627370496 / 2 ^ 55"
  "double_round (5 / 2) = 5629499534213120 / 2 ^ 51"
  "double_round 3 = 6755399441055744 / 2 ^ 51"
  by (rule double_round_significand; simp add: round_half_even_def Let_def)+

lemmas fl_defs = getBounds_fl_def getTCriticalX_fl_def getTCriticalY_fl_def new_Quadratic_def
  invalidate_def heap3_def extremaT_fl_def withCritical_fl_def withPoint_def withCoordinates_def
  positionAt_fl_def deref_def plus_fl_def times_fl_def Let_def double_example_def

lemma ex_points:
  "double_example 0 = Vector2 (5404319552844595 / 18014398509481984) 0"
  "double_example 1 = Vector2 (8106479329266893 / 4503599627370496) 1"
  "double_example 2 = Vector2 (5854679515581645 / 4503599627370496) 0"
  by (simp_all add: double_example_def heap3_def example_roundings)

lemma ex_refs:
  "f_start (new_Quadratic 0 1 2) = 0" "f_control (new_Quadratic 0 1 2) = 1"
  "f_end (new_Quadratic 0 1 2) = 2"
  by (simp_all add: new_Quadratic_def invalidate_def)

lemma ex_tx: "fst (getTCriticalX_fl double_round double_example (new_Quadratic 0 1 2))
    = Some (6755399441055745 / 9007199254740992)"
  by (simp add: fl_defs example_roundings double_round_0)

lemma ex_ty: "fst (getTCriticalY_fl double_round double_example (new_Quadratic 0 1 2)) = Some (1 / 2)"
  by (simp add: fl_defs example_roundings double_round_0)

lemma ex_box: "fst (getBounds_fl double_round double_example (new_Quadratic 0 1 2))
    = Bounds2 (5404319552844595 / 18014398509481984) 0 (6417629469002957 / 4503599627370496) (1 / 2)"
  by (simp add: fl_defs example_roundings double_round_0)

lemma ex_p: "positionAt_fl double_round (deref double_example (new_Quadratic 0 1 2)) (3 / 4)
    = Vector2 (3208814734501479 / 2251799813685248) (3 / 8)"
  by (simp add: fl_defs example_roundings double_round_0)

text \<open>
  C2, as stated, fails. On \<open>new Quadratic( (0.3, 0), (1.8, 1), (1.3, 0) )\<close> the critical
  parameter in x is \<open>0.7500000000000001\<close>, so the bounds reach
  \<open>x = 6417629469002957 / 2^52\<close>, printed \<open>1.425\<close>; \<open>positionAt( 0.75 )\<close> has
  \<open>x = 6417629469002958 / 2^52\<close>, printed \<open>1.4250000000000003\<close>, and the bounds do not
  contain it.
\<close>

theorem getBounds_misses_positionAt_counterexample:
  "fst (getBounds_fl double_round double_example (new_Quadratic 0 1 2))
       = Bounds2 (5404319552844595 / 18014398509481984) 0 (6417629469002957 / 4503599627370496) (1 / 2)
   \<and> positionAt_fl double_round (deref double_example (new_Quadratic 0 1 2)) (3 / 4)
       = Vector2 (3208814734501479 / 2251799813685248) (3 / 8)
   \<and> \<not> containsPoint (fst (getBounds_fl double_round double_example (new_Quadratic 0 1 2)))
          (positionAt_fl double_round (deref double_example (new_Quadratic 0 1 2)) (3 / 4))"
  unfolding ex_box ex_p by (simp add: containsPoint_def containsCoordinates_def)

text \<open>
  C2, amended. Whatever the rounding, for every Quadratic object whose cached critical
  parameters and bounds are null or the values computed from the points it holds now: the
  box that \<open>getBounds()\<close> returns contains the start point and the end point, and it
  contains \<open>positionAt( t )\<close> for each critical parameter \<open>t\<close> with \<open>0 < t < 1\<close> that
  \<open>getTCriticalX()\<close> or \<open>getTCriticalY()\<close> returns. When the rounding leaves 0, 1 and
  the coordinates of the start point as they are, as rounding to a double does for
  doubles, \<open>positionAt( 0 )\<close> is the start point, and likewise \<open>positionAt( 1 )\<close> is the
  end point. The box is cached: asking again returns the same box and leaves the object as
  it is. The constructor, the setters and the getters of the critical parameters and of
  the bounds give objects whose caches are null or computed from the points held.
\<close>

theorem getBounds_contains_critical_positions:
  assumes "coherent_fl rnd h q"
  shows "containsPoint (fst (getBounds_fl rnd h q)) (h (f_start q))
       \<and> containsPoint (fst (getBounds_fl rnd h q)) (h (f_end q))
       \<and> (fst (getTCriticalX_fl rnd h q) = Some tx \<and> 0 < tx \<and> tx < 1 \<longrightarrow>
            containsPoint (fst (getBounds_fl rnd h q)) (positionAt_fl rnd (deref h q) tx))
       \<and> (fst (getTCriticalY_fl rnd h q) = Some ty \<and> 0 < ty \<and> ty < 1 \<longrightarrow>
            containsPoint (fst (getBounds_fl rnd h q)) (positionAt_fl rnd (deref h q) ty))
       \<and> (rnd 0 = 0 \<and> rnd 1 = 1 \<and> rnd (vx (h (f_start q))) = vx (h (f_start q))
            \<and> rnd (vy (h (f_start q))) = vy (h (f_start q)) \<longrightarrow>
            positionAt_fl rnd (deref h q) 0 = h (f_start q))
       \<and> (rnd 0 = 0 \<and> rnd 1 = 1 \<and> rnd (vx (h (f_end q))) = vx (h (f_end q))
            \<and> rnd (vy (h (f_end q))) = vy (h (f_end q)) \<longrightarrow>
            positionAt_fl rnd (deref h q) 1 = h (f_end q))
       \<and> getBounds_fl rnd h (snd (getBounds_fl rnd h q))
           = (fst (getBounds_fl rnd h q), snd (getBounds_fl rnd h q))
       \<and> coherent_fl rnd h (snd (getBounds_fl rnd h q))
       \<and> coherent_fl rnd h (snd (getTCriticalX_fl rnd h q))
       \<and> coherent_fl rnd h (snd (getTCriticalY_fl rnd h q))
       \<and> coherent_fl rnd h (setter name v q)
       \<and> coherent_fl rnd h (new_Quadratic s c e)"
proof -
  note g = getBounds_fl_coherent[OF assms]
  note x = getTCriticalX_fl_coherent[OF assms]
  note y = getTCriticalY_fl_coherent[OF assms]
  have 1: "containsPoint (fst (getBounds_fl rnd h q)) (h (f_start q))"
    unfolding g(1) using boundsOf_fl_contains_ends(1)[of rnd "deref h q"] by (simp add: deref_sel)
  have 2: "containsPoint (fst (getBounds_fl rnd h q)) (h (f_end q))"
    unfolding g(1) using boundsOf_fl_contains_ends(2)[of rnd "deref h q"] by (simp add: deref_sel)
  have 3: "containsPoint (fst (getBounds_fl rnd h q)) (positionAt_fl rnd (deref h q) tx)"
    if "fst (getTCriticalX_fl rnd h q) = Some tx \<and> 0 < tx \<and> tx < 1"
    unfolding g(1) using that x(1)
    by (intro boundsOf_fl_contains_critical_x) (simp_all add: deref_sel)
  have 4: "containsPoint (fst (getBounds_fl rnd h q)) (positionAt_fl rnd (deref h q) ty)"
    if "fst (getTCriticalY_fl rnd h q) = Some ty \<and> 0 < ty \<and> ty < 1"
    unfolding g(1) using that y(1)
    by (intro boundsOf_fl_contains_critical_y) (simp_all add: deref_sel)
  have 5: "positionAt_fl rnd (deref h q) 0 = h (f_start q)"
    if "rnd 0 = 0 \<and> rnd 1 = 1 \<and> rnd (vx (h (f_start q))) = vx (h (f_start q))
            \<and> rnd (vy (h (f_start q))) = vy (h (f_start q))"
    using positionAt_fl_0[of rnd "deref h q"] that by (simp add: deref_sel)
  have 6: "positionAt_fl rnd (deref h q) 1 = h (f_end q)"
    if "rnd 0 = 0 \<and> rnd 1 = 1 \<and> rnd (vx (h (f_end q))) = vx (h (f_end q))
            \<and> rnd (vy (h (f_end q))) = vy (h (f_end q))"
    using positionAt_fl_1[of rnd "deref h q"] that by (simp add: deref_sel)
  have 7: "getBounds_fl rnd h (snd (getBounds_fl rnd h q))
           = (fst (getBounds_fl rnd h q), snd (getBounds_fl rnd h q))"
    using g(1,3) by (simp add: getBounds_fl_def)
  from 1 2 3 4 5 6 7 g(2) x(2) y(2) coherent_fl_setter[OF assms] coherent_fl_new
  show ?thesis by blast
qed

theorem getBounds_contains_critical_positions_witness:
  "coherent_fl double_round double_example (new_Quadratic 0 1 2)
   \<and> fst (getBounds_fl double_round double_example (new_Quadratic 0 1 2))
       = Bounds2 (5404319552844595 / 18014398509481984) 0 (6417629469002957 / 4503599627370496) (1 / 2)
   \<and> fst (getTCriticalX_fl double_round double_example (new_Quadratic 0 1 2))
       = Some (6755399441055745 / 9007199254740992)
   \<and> fst (getTCriticalY_fl double_round double_example (new_Quadratic 0 1 2)) = Some (1 / 2)
   \<and> containsPoint (fst (getBounds_fl double_round double_example (new_Quadratic 0 1 2)))
        (double_example 0)
   \<and> containsPoint (fst (getBounds_fl double_round double_example (new_Quadratic 0 1 2)))
        (double_example 2)
   \<and> containsPoint (fst (getBounds_fl double_round double_example (new_Quadratic 0 1 2)))
        (positionAt_fl double_round (deref double_example (new_Quadratic 0 1 2))
           (6755399441055745 / 9007199254740992))
   \<and> containsPoint (fst (getBounds_fl double_round double_example (new_Quadratic 0 1 2)))
        (positionAt_fl double_round (deref double_example (new_Quadratic 0 1 2)) (1 / 2))
   \<and> positionAt_fl double_round (deref double_example (new_Quadratic 0 1 2)) 0 = double_example 0
   \<and> positionAt_fl double_round (deref double_example (new_Quadratic 0 1 2)) 1 = double_example 2"
proof -
  have k: "coherent_fl double_round double_example (new_Quadratic 0 1 2)"
    by (simp add: coherent_fl_def new_Quadratic_def invalidate_def)
  have r: "double_round 0 = 0" "double_round 1 = 1"
    "double_round (vx (double_example 0)) = vx (double_example 0)"
    "double_round (vy (double_example 0)) = vy (double_example 0)"
    "double_round (vx (double_example 2)) = vx (double_example 2)"
    "double_round (vy (double_example 2)) = vy (double_example 2)"
    by (simp_all add: ex_points example_roundings double_round_0)
  have t: "(0::real) < 6755399441055745 / 9007199254740992"
    "(6755399441055745 / 9007199254740992 :: real) < 1" "(0::real) < 1 / 2" "(1 / 2 :: real) < 1"
    by simp_all
  from getBounds_contains_critical_positions[OF k,
      of "6755399441055745 / 9007199254740992" "1 / 2"]
    k r t ex_tx ex_ty ex_box
  show ?thesis unfolding ex_refs by blast
qed

text \<open>
  The condition on the caches is needed. A Vector2 can be changed in place (\<open>set\<close>,
  \<open>setX\<close>), which does not go through the setters of the segment that holds it, so a
  box cached before the change stays. After \<open>getBounds()\<close> on
  \<open>Quadratic( (0, 0), (1, 2), (2, 0) )\<close> and \<open>setX( 10 )\<close> on its end point, \<open>getBounds()\<close>
  is still the box from \<open>(0, 0)\<close> to \<open>(2, 1)\<close>, and \<open>positionAt( 1 )\<close> is \<open>(10, 0)\<close>.
\<close>

lemma getBounds_stale_after_mutation:
  "fst (getBounds_fl double_round (heap3 (Vector2 0 0) (Vector2 1 2) (Vector2 10 0))
          (snd (getBounds_fl double_round (heap3 (Vector2 0 0) (Vector2 1 2) (Vector2 2 0))
                  (new_Quadratic 0 1 2))))
      = Bounds2 0 0 2 1
   \<and> positionAt_fl double_round
        (deref (heap3 (Vector2 0 0) (Vector2 1 2) (Vector2 10 0))
           (snd (getBounds_fl double_round (heap3 (Vector2 0 0) (Vector2 1 2) (Vector2 2 0))
                   (new_Quadratic 0 1 2)))) 1
      = Vector2 10 0
   \<and> \<not> containsPoint (Bounds2 0 0 2 1) (Vector2 10 0)
   \<and> \<not> coherent_fl double_round (heap3 (Vector2 0 0) (Vector2 1 2) (Vector2 10 0))
          (snd (getBounds_fl double_round (heap3 (Vector2 0 0) (Vector2 1 2) (Vector2 2 0))
                  (new_Quadratic 0 1 2)))"
  by (simp add: getBounds_fl_def getTCriticalX_fl_def getTCriticalY_fl_def new_Quadratic_def
      invalidate_def heap3_def extremaT_fl_def withCritical_fl_def withPoint_def withCoordinates_def
      positionAt_fl_def deref_def plus_fl_def times_fl_def Let_def coherent_fl_def boundsOf_fl_def
      containsPoint_def containsCoordinates_def example_roundings double_round_0)

subsection \<open>Quadratic: subdivision\<close>

lemma subdivided_left:
  "positionAt (Quadratic (q_start q) (blend (q_start q) (q_control q) t)
       (blend (blend (q_start q) (q_control q) t) (blend (q_control q) (q_end q) t) t)) u
   = positionAt q (t * u)"
  by (rule Vector2_eqI)
     (simp_all add: positionAt_def Let_def blend_def plus_v_def minus_v_def times_v_def
        timesScalar_def algebra_simps)

lemma subdivided_right:
  "positionAt (Quadratic (blend (blend (q_start q) (q_control q) t) (blend (q_control q) (q_end q) t) t)
       (blend (q_control q) (q_end q) t) (q_end q)) u
   = positionAt q (t + (1 - t) * u)"
  by (rule Vector2_eqI)
     (simp_all add: positionAt_def Let_def blend_def plus_v_def minus_v_def times_v_def
        timesScalar_def algebra_simps)

text \<open>
  C3. For every Quadratic segment and every \<open>t\<close> in \<open>(0,1)\<close>, \<open>subdivided(t)\<close>
  returns exactly two Quadratics; the first ends and the second starts at the parent's
  \<open>positionAt(t)\<close>; the first starts at the parent's start and the second ends at the
  parent's end; and the first is the parent reparameterised over \<open>[0,t]\<close>, the second
  the parent reparameterised over \<open>[t,1]\<close>.
\<close>

theorem subdivided_covers:
  assumes "0 < t" "t < 1"
  shows "length (subdivided q t) = 2
       \<and> positionAt (subdivided q t ! 0) 1 = positionAt q t
       \<and> positionAt (subdivided q t ! 1) 0 = positionAt q t
       \<and> q_start (subdivided q t ! 0) = q_start q
       \<and> q_end (subdivided q t ! 1) = q_end q
       \<and> (\<forall>u. positionAt (subdivided q t ! 0) u = positionAt q (t * u))
       \<and> (\<forall>u. positionAt (subdivided q t ! 1) u = positionAt q (t + (1 - t) * u))"
proof -
  have l: "positionAt (subdivided q t ! 0) u = positionAt q (t * u)" for u
    by (simp add: subdivided_def Let_def subdivided_left)
  have r: "positionAt (subdivided q t ! 1) u = positionAt q (t + (1 - t) * u)" for u
    by (simp add: subdivided_def Let_def subdivided_right)
  have "length (subdivided q t) = 2" by (simp add: subdivided_def Let_def)
  moreover have "positionAt (subdivided q t ! 0) 1 = positionAt q t" using l[of 1] by simp
  moreover have "positionAt (subdivided q t ! 1) 0 = positionAt q t" using r[of 0] by simp
  moreover have "q_start (subdivided q t ! 0) = q_start q" "q_end (subdivided q t ! 1) = q_end q"
    by (simp_all add: subdivided_def Let_def)
  ultimately show ?thesis using l r by blast
qed

theorem subdivided_covers_witness:
  "subdivided (Quadratic (Vector2 0 0) (Vector2 2 4) (Vector2 4 0)) (1/2)
     = [Quadratic (Vector2 0 0) (Vector2 1 2) (Vector2 2 2),
        Quadratic (Vector2 2 2) (Vector2 3 2) (Vector2 4 0)]
   \<and> positionAt (subdivided (Quadratic (Vector2 0 0) (Vector2 2 4) (Vector2 4 0)) (1/2) ! 0) 1
       = Vector2 2 2
   \<and> positionAt (subdivided (Quadratic (Vector2 0 0) (Vector2 2 4) (Vector2 4 0)) (1/2) ! 1) 0
       = Vector2 2 2"
proof -
  have t: "(0::real) < 1/2" "(1/2::real) < 1" by simp_all
  have p: "positionAt (Quadratic (Vector2 0 0) (Vector2 2 4) (Vector2 4 0)) (1/2) = Vector2 2 2"
    by (simp add: positionAt_def Let_def plus_v_def times_v_def timesScalar_def)
  have s: "subdivided (Quadratic (Vector2 0 0) (Vector2 2 4) (Vector2 4 0)) (1/2)
     = [Quadratic (Vector2 0 0) (Vector2 1 2) (Vector2 2 2),
        Quadratic (Vector2 2 2) (Vector2 3 2) (Vector2 4 0)]"
    by (simp add: subdivided_def Let_def blend_def plus_v_def minus_v_def times_v_def timesScalar_def)
  from subdivided_covers[OF t, of "Quadratic (Vector2 0 0) (Vector2 2 4) (Vector2 4 0)"] p s
  show ?thesis by metis
qed

subsection \<open>Quadratic: getNondegenerateSegments\<close>

lemma equals_iff: "equals a b \<longleftrightarrow> a = b"
  by (cases a, cases b) (simp add: equals_def)

lemma collinear_start_is_end: "arePointsCollinear p c p"
  by (simp add: arePointsCollinear_def algebra_simps)

lemma collinear_start_is_control: "arePointsCollinear p p q"
  by (simp add: arePointsCollinear_def algebra_simps)

lemma farthest_half:
  assumes "0 \<le> t" "t \<le> 1"
  shows "distanceSquared (positionAt (Quadratic p c p) t) p
       \<le> distanceSquared (positionAt (Quadratic p c p) (1/2)) p"
proof -
  define m where "m = magnitudeSquared (minus_v c p)"
  have m0: "0 \<le> m" unfolding m_def magnitudeSquared_def dot_def by simp
  have d: "distanceSquared (positionAt (Quadratic p c p) u) p = (2 * u * (1 - u))\<^sup>2 * m" for u
    unfolding m_def distanceSquared_def magnitudeSquared_def dot_def positionAt_def Let_def
      plus_v_def minus_v_def times_v_def timesScalar_def
    by (simp add: algebra_simps power2_eq_square)
  have "0 \<le> 2 * t * (1 - t)" using assms by simp
  moreover have "2 * t * (1 - t) \<le> 1/2"
  proof -
    have "0 \<le> (2 * t - 1)\<^sup>2" by simp
    then show ?thesis by (simp add: power2_eq_square algebra_simps)
  qed
  ultimately have "(2 * t * (1 - t))\<^sup>2 \<le> (1/2)\<^sup>2"
    by (intro power_mono) auto
  then have "(2 * t * (1 - t))\<^sup>2 * m \<le> (2 * (1/2) * (1 - 1/2))\<^sup>2 * m"
    using m0 by (intro mult_right_mono) (auto simp: power2_eq_square)
  then show ?thesis unfolding d .
qed

text \<open>
  C4. \<open>getNondegenerateSegments\<close> returns the empty list when start, control and end
  coincide; a single Line from \<open>p\<close> to \<open>q\<close> for \<open>Quadratic(p, p, q)\<close> with
  \<open>p \<noteq> q\<close>; two Lines through the curve's farthest point, its position at one half,
  when start and end coincide and the control differs; and the Quadratic itself when the
  three points are not collinear.
\<close>

theorem getNondegenerateSegments_cases:
  "getNondegenerateSegments (Quadratic p p p) = []
   \<and> (p \<noteq> q \<longrightarrow> getNondegenerateSegments (Quadratic p p q) = [LineSeg (Line p q)])
   \<and> (p \<noteq> c \<longrightarrow>
        getNondegenerateSegments (Quadratic p c p)
          = [LineSeg (Line p (positionAt (Quadratic p c p) (1/2))),
             LineSeg (Line (positionAt (Quadratic p c p) (1/2)) p)]
      \<and> (\<forall>t. 0 \<le> t \<and> t \<le> 1 \<longrightarrow>
            distanceSquared (positionAt (Quadratic p c p) t) p
              \<le> distanceSquared (positionAt (Quadratic p c p) (1/2)) p))
   \<and> (\<not> arePointsCollinear s m e \<longrightarrow>
        getNondegenerateSegments (Quadratic s m e) = [QuadraticSeg (Quadratic s m e)])"
proof (intro conjI impI allI)
  show "getNondegenerateSegments (Quadratic p p p) = []"
    by (simp add: getNondegenerateSegments_def Let_def equals_iff)
next
  assume "p \<noteq> q"
  then show "getNondegenerateSegments (Quadratic p p q) = [LineSeg (Line p q)]"
    using collinear_start_is_control[of p q]
    by (simp add: getNondegenerateSegments_def Let_def equals_iff)
next
  assume "p \<noteq> c"
  then show "getNondegenerateSegments (Quadratic p c p)
      = [LineSeg (Line p (positionAt (Quadratic p c p) (1/2))),
         LineSeg (Line (positionAt (Quadratic p c p) (1/2)) p)]"
    by (simp add: getNondegenerateSegments_def Let_def equals_iff)
next
  fix t :: real
  assume "0 \<le> t \<and> t \<le> 1"
  then show "distanceSquared (positionAt (Quadratic p c p) t) p
      \<le> distanceSquared (positionAt (Quadratic p c p) (1/2)) p"
    using farthest_half[of t p c] by blast
next
  assume nc: "\<not> arePointsCollinear s m e"
  then have "s \<noteq> e" using collinear_start_is_end[of s m] by auto
  then show "getNondegenerateSegments (Quadratic s m e) = [QuadraticSeg (Quadratic s m e)]"
    using nc by (simp add: getNondegenerateSegments_def Let_def equals_iff)
qed

theorem getNondegenerateSegments_cases_witness:
  "getNondegenerateSegments (Quadratic (Vector2 0 0) (Vector2 0 0) (Vector2 0 0)) = []
   \<and> getNondegenerateSegments (Quadratic (Vector2 0 0) (Vector2 0 0) (Vector2 1 1))
       = [LineSeg (Line (Vector2 0 0) (Vector2 1 1))]
   \<and> getNondegenerateSegments (Quadratic (Vector2 0 0) (Vector2 1 2) (Vector2 0 0))
       = [LineSeg (Line (Vector2 0 0) (Vector2 (1/2) 1)),
          LineSeg (Line (Vector2 (1/2) 1) (Vector2 0 0))]
   \<and> getNondegenerateSegments (Quadratic (Vector2 0 0) (Vector2 1 2) (Vector2 2 0))
       = [QuadraticSeg (Quadratic (Vector2 0 0) (Vector2 1 2) (Vector2 2 0))]"
proof -
  have a: "Vector2 0 0 \<noteq> Vector2 1 1" "Vector2 0 0 \<noteq> Vector2 1 2" by simp_all
  have b: "\<not> arePointsCollinear (Vector2 0 0) (Vector2 1 2) (Vector2 2 0)"
    by (simp add: arePointsCollinear_def)
  have h: "positionAt (Quadratic (Vector2 0 0) (Vector2 1 2) (Vector2 0 0)) (1/2) = Vector2 (1/2) 1"
    by (simp add: positionAt_def Let_def plus_v_def times_v_def timesScalar_def)
  from getNondegenerateSegments_cases[of "Vector2 0 0" "Vector2 1 1" "Vector2 1 2"
      "Vector2 0 0" "Vector2 1 2" "Vector2 2 0"] a b h
  show ?thesis by simp
qed

subsection \<open>Quadratic: the invalidating setters\<close>

lemma invalidate_caches:
  "f_startTangent (invalidate q) = None" "f_endTangent (invalidate q) = None"
  "f_tCriticalX (invalidate q) = None" "f_tCriticalY (invalidate q) = None"
  "f_bounds (invalidate q) = None"
  "f_start (invalidate q) = f_start q" "f_control (invalidate q) = f_control q"
  "f_end (invalidate q) = f_end q"
  by (simp_all add: invalidate_def)

lemma getter_assign:
  "getter name (assign name v q) = v"
  by (cases name) simp_all

lemma getter_assign_other:
  "other \<noteq> name \<Longrightarrow> getter other (assign name v q) = getter other q"
  by (cases name; cases other) simp_all

lemma getter_invalidate: "getter name (invalidate q) = getter name q"
  by (cases name) (simp_all add: invalidate_def)

text \<open>
  C10. For every Quadratic object and each of the generated setters (start, control, end):
  setting the property to the value it holds leaves the object, and so every cache, as it
  is; setting it to another value stores the value, leaves the other two properties alone,
  clears the start and end tangents, both critical parameters and the bounds, fires one
  \<open>invalidated\<close> event, and the next \<open>getBounds\<close> computes the bounds of the three
  points now held. A value is what the source compares with \<open>!==\<close>: the reference.
\<close>

theorem setter_invalidates:
  "(getter name q = v \<longrightarrow> setter name v q = q)
   \<and> (getter name q \<noteq> v \<longrightarrow>
        f_startTangent (setter name v q) = None
      \<and> f_endTangent (setter name v q) = None
      \<and> f_tCriticalX (setter name v q) = None
      \<and> f_tCriticalY (setter name v q) = None
      \<and> f_bounds (setter name v q) = None
      \<and> getter name (setter name v q) = v
      \<and> (\<forall>other. other \<noteq> name \<longrightarrow> getter other (setter name v q) = getter other q)
      \<and> invalidated_events (setter name v q) = Suc (invalidated_events q)
      \<and> fst (getBounds h (setter name v q))
          = fst (getBounds h (new_Quadratic (f_start (setter name v q))
                   (f_control (setter name v q)) (f_end (setter name v q)))))"
proof (intro conjI impI)
  assume "getter name q = v"
  then show "setter name v q = q" by (simp add: setter_def)
next
  assume ne: "getter name q \<noteq> v"
  then have s: "setter name v q = invalidate (assign name v q)" by (simp add: setter_def)
  show "f_startTangent (setter name v q) = None" "f_endTangent (setter name v q) = None"
    "f_tCriticalX (setter name v q) = None" "f_tCriticalY (setter name v q) = None"
    "f_bounds (setter name v q) = None"
    unfolding s by (simp_all add: invalidate_caches)
  show "getter name (setter name v q) = v"
    unfolding s by (simp add: getter_invalidate getter_assign)
  show "\<forall>other. other \<noteq> name \<longrightarrow> getter other (setter name v q) = getter other q"
    unfolding s by (simp add: getter_invalidate getter_assign_other)
  show "invalidated_events (setter name v q) = Suc (invalidated_events q)"
    unfolding s by (cases name) (simp_all add: invalidate_def)
  show "fst (getBounds h (setter name v q))
          = fst (getBounds h (new_Quadratic (f_start (setter name v q))
                   (f_control (setter name v q)) (f_end (setter name v q))))"
  proof -
    let ?q = "setter name v q"
    let ?n = "new_Quadratic (f_start ?q) (f_control ?q) (f_end ?q)"
    have a: "f_bounds ?q = None" "f_tCriticalX ?q = None" "f_tCriticalY ?q = None"
      unfolding s by (simp_all add: invalidate_caches)
    have b: "f_bounds ?n = None" "f_tCriticalX ?n = None" "f_tCriticalY ?n = None"
      "f_start ?n = f_start ?q" "f_control ?n = f_control ?q" "f_end ?n = f_end ?q"
      by (simp_all add: new_Quadratic_def invalidate_def)
    show ?thesis
      unfolding getBounds_fresh[OF a] getBounds_fresh[OF b(1,2,3)] deref_def b(4,5,6) ..
  qed
qed

theorem setter_invalidates_witness:
  "setter P_control 1 cached_example = cached_example
   \<and> f_bounds (setter P_control 1 cached_example) = Some (Bounds2 0 0 2 0)
   \<and> f_bounds (setter P_control 5 cached_example) = None
   \<and> f_startTangent (setter P_control 5 cached_example) = None
   \<and> f_endTangent (setter P_control 5 cached_example) = None
   \<and> f_tCriticalX (setter P_control 5 cached_example) = None
   \<and> f_tCriticalY (setter P_control 5 cached_example) = None
   \<and> f_control (setter P_control 5 cached_example) = 5"
proof -
  have a: "getter P_control cached_example = 1" by (simp add: cached_example_def)
  have b: "getter P_control cached_example \<noteq> 5" by (simp add: cached_example_def)
  have c: "f_bounds cached_example = Some (Bounds2 0 0 2 0)" by (simp add: cached_example_def)
  from setter_invalidates[of P_control cached_example 1] a
  have 1: "setter P_control 1 cached_example = cached_example" by blast
  from setter_invalidates[of P_control cached_example 5] b
  have 2: "f_bounds (setter P_control 5 cached_example) = None"
    "f_startTangent (setter P_control 5 cached_example) = None"
    "f_endTangent (setter P_control 5 cached_example) = None"
    "f_tCriticalX (setter P_control 5 cached_example) = None"
    "f_tCriticalY (setter P_control 5 cached_example) = None"
    "getter P_control (setter P_control 5 cached_example) = 5"
    by blast+
  from 1 2 c show ?thesis by simp
qed

subsection \<open>Shape: point containment on the unit square\<close>

lemma rect_unit_square: "rect 0 0 1 1 new_Shape = Inr unit_square"
  by (simp add: rect_def unit_square_def new_Shape_def Let_def bind_e_def onLastSubpath_def
      getLastSubpath_def addSubpath_def new_Subpath_def addPoint_def addSegmentAndBounds_def
      addSegment_def invalid_def equals_def close_def Shape_invalidate_def
      resetControlPoints_def)

lemmas line_eval = Line_windingIntersection_def Line_intersection_def lineLineIntersection_def
  Let_def plus_v_def minus_v_def dot_def perpendicular_def pointAtDistance_def timesScalar_def
  negated_def

lemma inside_edges:
  "Line_windingIntersection (Line (Vector2 0 0) (Vector2 1 0)) \<lparr>pos = Vector2 (1/2) (1/2), dir = Vector2 1 0\<rparr> = 0"
  "Line_windingIntersection (Line (Vector2 1 0) (Vector2 1 1)) \<lparr>pos = Vector2 (1/2) (1/2), dir = Vector2 1 0\<rparr> = 1"
  "Line_windingIntersection (Line (Vector2 1 1) (Vector2 0 1)) \<lparr>pos = Vector2 (1/2) (1/2), dir = Vector2 1 0\<rparr> = 0"
  "Line_windingIntersection (Line (Vector2 0 1) (Vector2 0 0)) \<lparr>pos = Vector2 (1/2) (1/2), dir = Vector2 1 0\<rparr> = 0"
  by (simp_all add: line_eval)

lemma outside_edges:
  "Line_windingIntersection (Line (Vector2 0 0) (Vector2 1 0)) \<lparr>pos = Vector2 2 2, dir = Vector2 1 0\<rparr> = 0"
  "Line_windingIntersection (Line (Vector2 1 0) (Vector2 1 1)) \<lparr>pos = Vector2 2 2, dir = Vector2 1 0\<rparr> = 0"
  "Line_windingIntersection (Line (Vector2 1 1) (Vector2 0 1)) \<lparr>pos = Vector2 2 2, dir = Vector2 1 0\<rparr> = 0"
  "Line_windingIntersection (Line (Vector2 0 1) (Vector2 0 0)) \<lparr>pos = Vector2 2 2, dir = Vector2 1 0\<rparr> = 0"
  by (simp_all add: line_eval)

lemmas shape_eval = Shape_windingIntersection_def Subpath_windingIntersection_def
  unit_square_def isDrawable_def hasClosingSegment_def getClosingSegment_def getFirstPoint_def
  getLastPoint_def equalsEpsilon_def bind_e_def Let_def

lemma winding_inside:
  "Shape_windingIntersection unit_square \<lparr>pos = Vector2 (1/2) (1/2), dir = Vector2 1 0\<rparr> = Inr 1"
  by (simp add: shape_eval inside_edges)

lemma winding_outside:
  "Shape_windingIntersection unit_square \<lparr>pos = Vector2 2 2, dir = Vector2 1 0\<rparr> = Inr 0"
  by (simp add: shape_eval outside_edges)

text \<open>
  A ray along the line of an edge: the denominator and both numerators of
  \<open>lineLineIntersection\<close> are zero, the point is \<open>(0, 0)\<close>, and the top edge of the unit
  square counts with winding \<open>-1\<close> for the ray from \<open>(-1, 1)\<close>, which the right edge
  cancels.
\<close>

lemma along_edges:
  "Line_windingIntersection (Line (Vector2 0 0) (Vector2 1 0)) \<lparr>pos = Vector2 (- 1) 1, dir = Vector2 1 0\<rparr> = 0"
  "Line_windingIntersection (Line (Vector2 1 0) (Vector2 1 1)) \<lparr>pos = Vector2 (- 1) 1, dir = Vector2 1 0\<rparr> = 1"
  "Line_windingIntersection (Line (Vector2 1 1) (Vector2 0 1)) \<lparr>pos = Vector2 (- 1) 1, dir = Vector2 1 0\<rparr> = - 1"
  "Line_windingIntersection (Line (Vector2 0 1) (Vector2 0 0)) \<lparr>pos = Vector2 (- 1) 1, dir = Vector2 1 0\<rparr> = 0"
  by (simp_all add: line_eval)

lemma containsPoint_ray_along_edge:
  "Line_intersection (Line (Vector2 1 1) (Vector2 0 1)) \<lparr>pos = Vector2 (- 1) 1, dir = Vector2 1 0\<rparr>
     = [\<lparr>distance = 1, point = Vector2 0 1, normal = Vector2 0 1, wind = - 1\<rparr>]
   \<and> Shape_containsPoint unit_square (Vector2 (- 1) 1) = Inr False"
  by (simp add: Shape_containsPoint_def shape_eval along_edges)
     (simp add: line_eval)

text \<open>
  C1. \<open>rect(0,0,1,1)\<close> on a new Shape builds the unit square; on it
  \<open>containsPoint((0.5,0.5))\<close> is true and \<open>containsPoint((2,2))\<close> is false; and for
  every Shape and point, \<open>containsPoint\<close> casts the ray from the point in direction
  \<open>(1,0)\<close> and is true exactly when the winding over that ray is not zero.
\<close>

theorem unit_square_containsPoint:
  "rect 0 0 1 1 new_Shape = Inr unit_square
   \<and> Shape_containsPoint unit_square (Vector2 (1/2) (1/2)) = Inr True
   \<and> Shape_containsPoint unit_square (Vector2 2 2) = Inr False
   \<and> Shape_containsPoint s p =
       (case Shape_windingIntersection s \<lparr>pos = p, dir = Vector2 1 0\<rparr> of
          Inl err \<Rightarrow> Inl err
        | Inr w \<Rightarrow> Inr (w \<noteq> 0))"
proof -
  have "Shape_containsPoint unit_square (Vector2 (1/2) (1/2)) = Inr True"
    by (simp add: Shape_containsPoint_def Let_def winding_inside bind_e_def)
  moreover have "Shape_containsPoint unit_square (Vector2 2 2) = Inr False"
    by (simp add: Shape_containsPoint_def Let_def winding_outside bind_e_def)
  moreover have "Shape_containsPoint s p =
       (case Shape_windingIntersection s \<lparr>pos = p, dir = Vector2 1 0\<rparr> of
          Inl err \<Rightarrow> Inl err
        | Inr w \<Rightarrow> Inr (w \<noteq> 0))"
    by (simp add: Shape_containsPoint_def Let_def bind_e_def)
  ultimately show ?thesis using rect_unit_square by blast
qed

subsection \<open>Subpath: hasClosingSegment\<close>

text \<open>
  C5, as stated, fails: an open subpath whose last point differs from its first has a
  closing segment although its closed flag is not set.
\<close>

theorem hasClosingSegment_open_counterexample:
  "points open_path \<noteq> [] \<and> hasClosingSegment open_path = Inr True \<and> closed open_path = False"
  by (simp add: open_path_def hasClosingSegment_def getFirstPoint_def getLastPoint_def
      equalsEpsilon_def)

text \<open>
  C5, amended. For every Subpath with at least one point, \<open>hasClosingSegment()\<close> is true
  exactly when the first and the last point differ by more than \<open>1e-9\<close> in the sum of the
  absolute coordinate differences; the closed flag is not consulted.
\<close>

theorem hasClosingSegment_iff:
  assumes "points sp \<noteq> []"
  shows "hasClosingSegment sp =
     Inr (\<bar>vx (hd (points sp)) - vx (last (points sp))\<bar>
          + \<bar>vy (hd (points sp)) - vy (last (points sp))\<bar> > 0.000000001)"
  using assms
  by (cases "points sp")
     (auto simp: hasClosingSegment_def getFirstPoint_def getLastPoint_def equalsEpsilon_def
        not_le)

theorem hasClosingSegment_iff_witness:
  "hasClosingSegment open_path = Inr True
   \<and> hasClosingSegment (close open_path) = Inr True
   \<and> hasClosingSegment (close (addPoint (Vector2 0 0) open_path)) = Inr False"
proof -
  have a: "points open_path \<noteq> []" "points (close open_path) \<noteq> []"
    "points (close (addPoint (Vector2 0 0) open_path)) \<noteq> []"
    by (simp_all add: open_path_def close_def addPoint_def)
  show ?thesis
    using hasClosingSegment_iff[OF a(1)] hasClosingSegment_iff[OF a(2)]
      hasClosingSegment_iff[OF a(3)]
    by (simp add: open_path_def close_def addPoint_def)
qed

subsection \<open>Shape: lineTo without a subpath\<close>

text \<open>
  C9. \<open>lineToPoint\<close> on a Shape with no subpaths adds no segment: the Shape then holds
  one new Subpath with the given point only, no subpath is drawable, and the point is the
  last point, from which a following \<open>lineToPoint\<close> draws its Line.
\<close>

theorem lineToPoint_no_subpaths:
  assumes "subpaths s = []"
  shows "\<exists>s1. lineToPoint p s = Inr s1
       \<and> subpaths s1 = [\<lparr>points = [p], segments = [], closed = False\<rparr>]
       \<and> list_all (\<lambda>sp. segments sp = []) (subpaths s1)
       \<and> list_all (\<lambda>sp. \<not> isDrawable sp) (subpaths s1)
       \<and> Shape_getLastPoint s1 = Some p
       \<and> (\<exists>s2. lineToPoint q s1 = Inr s2
            \<and> subpaths s2 = [\<lparr>points = [p, q],
                              segments = (if p = q then [] else [Line p q]), closed = False\<rparr>])"
  using assms
  by (cases p; cases q)
     (simp add: lineToPoint_def ensure_def hasSubpaths_def bind_e_def onLastSubpath_def
      getLastSubpath_def addSubpath_def new_Subpath_def addPoint_def Shape_invalidate_def
      resetControlPoints_def isDrawable_def Shape_getLastPoint_def getLastPoint_def Let_def
      addSegmentAndBounds_def addSegment_def invalid_def equals_def)

theorem lineToPoint_no_subpaths_witness:
  "\<exists>s1. lineToPoint (Vector2 3 4) new_Shape = Inr s1
       \<and> subpaths s1 = [\<lparr>points = [Vector2 3 4], segments = [], closed = False\<rparr>]
       \<and> (\<exists>s2. lineToPoint (Vector2 5 6) s1 = Inr s2
            \<and> subpaths s2 = [\<lparr>points = [Vector2 3 4, Vector2 5 6],
                              segments = [Line (Vector2 3 4) (Vector2 5 6)], closed = False\<rparr>])"
proof -
  have a: "subpaths new_Shape = []"
    by (simp add: new_Shape_def Shape_invalidate_def resetControlPoints_def)
  from lineToPoint_no_subpaths[OF a, of "Vector2 3 4" "Vector2 5 6"]
  show ?thesis by auto
qed

subsection \<open>Segment: adaptive subdivision into lines\<close>

lemma distanceSquared_nonneg: "0 \<le> distanceSquared a b"
  by (simp add: distanceSquared_def magnitudeSquared_def dot_def)

lemma distToSegmentSquared_nonneg: "0 \<le> distToSegmentSquared p a b"
  by (simp add: distToSegmentSquared_def Let_def distanceSquared_nonneg)

lemma quotient_less_nonneg:
  "0 \<le> d \<Longrightarrow> quotient_less d c eps \<longleftrightarrow> c \<noteq> 0 \<and> d / c < eps"
  by (simp add: quotient_less_def)

lemma finished_iff:
  "finished opts minL maxL middle start end' \<longleftrightarrow>
     maxL = 0
     \<or> (minL \<le> 0
        \<and> (curveEpsilon opts = None
           \<or> (distanceSquared start end' \<noteq> 0
              \<and> distToSegmentSquared middle start end' / distanceSquared start end'
                  < the (curveEpsilon opts)))
        \<and> (distanceEpsilon opts = None
           \<or> distToSegmentSquared middle start end' < the (distanceEpsilon opts)))"
  by (cases "curveEpsilon opts"; cases "distanceEpsilon opts")
     (auto simp: finished_def Let_def quotient_less_nonneg[OF distToSegmentSquared_nonneg])

lemma rec_returns:
  "0 \<le> maxL \<Longrightarrow> nat maxL < n \<Longrightarrow>
   \<exists>res. toPiecewiseLinearSegments_rec n opts minL maxL segs start end' q = Some res"
proof (induction n arbitrary: minL maxL segs start end' q)
  case 0
  then show ?case by simp
next
  case (Suc n)
  show ?case
  proof (cases "finished opts minL maxL (pointMap_or_identity opts (positionAt q 0.5)) start end'")
    case True
    then show ?thesis by (simp add: Let_def)
  next
    case False
    then have "maxL \<noteq> 0" by (auto simp: finished_def Let_def split: if_splits)
    with Suc.prems have m: "0 \<le> maxL - 1" "nat (maxL - 1) < n" by auto
    from Suc.IH[OF m] obtain r1 where
      r1: "toPiecewiseLinearSegments_rec n opts (minL - 1) (maxL - 1) segs start
             (pointMap_or_identity opts (positionAt q 0.5)) (subdivided q 0.5 ! 0) = Some r1"
      by blast
    from Suc.IH[OF m] obtain r2 where
      r2: "toPiecewiseLinearSegments_rec n opts (minL - 1) (maxL - 1) r1
             (pointMap_or_identity opts (positionAt q 0.5)) end' (subdivided q 0.5 ! 1) = Some r2"
      by blast
    show ?thesis using False r1 r2 by (simp add: Let_def)
  qed
qed

text \<open>
  C7. In \<open>toPiecewiseLinearSegments\<close>, subdivision of a piece stops exactly when
  \<open>maxLevels\<close> is zero, or \<open>minLevels\<close> is at most zero and both criteria pass, each
  passing when its epsilon is null: the midpoint-to-chord squared distance divided by the
  squared chord length is below \<open>curveEpsilon\<close>, and the midpoint-to-chord squared
  distance is below \<open>distanceEpsilon\<close>. A piece that stops contributes the Line from its
  start to its end; otherwise it is bisected at one half and both halves are processed
  with both levels lowered by one. With \<open>maxLevels\<close> not negative the recursion returns
  within \<open>maxLevels + 1\<close> nested calls.
\<close>

theorem toPiecewiseLinearSegments_step:
  "(finished opts minL maxL middle start end' \<longleftrightarrow>
      maxL = 0
      \<or> (minL \<le> 0
         \<and> (curveEpsilon opts = None
            \<or> (distanceSquared start end' \<noteq> 0
               \<and> distToSegmentSquared middle start end' / distanceSquared start end'
                   < the (curveEpsilon opts)))
         \<and> (distanceEpsilon opts = None
            \<or> distToSegmentSquared middle start end' < the (distanceEpsilon opts))))
   \<and> toPiecewiseLinearSegments_rec (Suc n) opts minL maxL segs start end' q =
       (if finished opts minL maxL (pointMap_or_identity opts (positionAt q (1/2))) start end'
        then Some (segs @ [Line start end'])
        else
          (case toPiecewiseLinearSegments_rec n opts (minL - 1) (maxL - 1) segs start
                  (pointMap_or_identity opts (positionAt q (1/2))) (subdivided q (1/2) ! 0) of
             None \<Rightarrow> None
           | Some segs1 \<Rightarrow>
               toPiecewiseLinearSegments_rec n opts (minL - 1) (maxL - 1) segs1
                 (pointMap_or_identity opts (positionAt q (1/2))) end' (subdivided q (1/2) ! 1)))
   \<and> (0 \<le> maxL \<longrightarrow>
        (\<exists>res. toPiecewiseLinearSegments_rec (Suc (nat maxL)) opts minL maxL segs start end' q
                 = Some res))"
proof (intro conjI impI)
  show "finished opts minL maxL middle start end' \<longleftrightarrow>
      maxL = 0
      \<or> (minL \<le> 0
         \<and> (curveEpsilon opts = None
            \<or> (distanceSquared start end' \<noteq> 0
               \<and> distToSegmentSquared middle start end' / distanceSquared start end'
                   < the (curveEpsilon opts)))
         \<and> (distanceEpsilon opts = None
            \<or> distToSegmentSquared middle start end' < the (distanceEpsilon opts)))"
    by (rule finished_iff)
next
  show "toPiecewiseLinearSegments_rec (Suc n) opts minL maxL segs start end' q =
       (if finished opts minL maxL (pointMap_or_identity opts (positionAt q (1/2))) start end'
        then Some (segs @ [Line start end'])
        else
          (case toPiecewiseLinearSegments_rec n opts (minL - 1) (maxL - 1) segs start
                  (pointMap_or_identity opts (positionAt q (1/2))) (subdivided q (1/2) ! 0) of
             None \<Rightarrow> None
           | Some segs1 \<Rightarrow>
               toPiecewiseLinearSegments_rec n opts (minL - 1) (maxL - 1) segs1
                 (pointMap_or_identity opts (positionAt q (1/2))) end' (subdivided q (1/2) ! 1)))"
    by (simp add: Let_def)
next
  assume "0 \<le> maxL"
  then show "\<exists>res. toPiecewiseLinearSegments_rec (Suc (nat maxL)) opts minL maxL segs start end' q
                 = Some res"
    by (intro rec_returns) auto
qed

lemma bisected_once: "toPiecewiseLinearSegments 2 dist_options (Quadratic (Vector2 0 0) (Vector2 2 4) (Vector2 4 0))
  = Some [Line (Vector2 0 0) (Vector2 2 2), Line (Vector2 2 2) (Vector2 4 0)]"
  by (simp add: toPiecewiseLinearSegments_def dist_options_def finished_def Let_def
      pointMap_or_identity_def positionAt_def subdivided_def blend_def plus_v_def minus_v_def
      times_v_def timesScalar_def distToSegmentSquared_def distanceSquared_def
      magnitudeSquared_def dot_def numeral_2_eq_2)

theorem toPiecewiseLinearSegments_step_witness:
  "\<not> finished dist_options 0 1 (Vector2 2 2) (Vector2 0 0) (Vector2 4 0)
   \<and> finished dist_options (- 1) 0 (Vector2 1 (3/2)) (Vector2 0 0) (Vector2 2 2)
   \<and> toPiecewiseLinearSegments_rec (Suc (nat 1)) dist_options 0 1 [] (Vector2 0 0) (Vector2 4 0)
         (Quadratic (Vector2 0 0) (Vector2 2 4) (Vector2 4 0))
       = Some [Line (Vector2 0 0) (Vector2 2 2), Line (Vector2 2 2) (Vector2 4 0)]"
proof -
  note step = toPiecewiseLinearSegments_step[of dist_options 0 1 "Vector2 2 2" "Vector2 0 0"
      "Vector2 4 0" "nat 1" "[]" "Quadratic (Vector2 0 0) (Vector2 2 4) (Vector2 4 0)"]
  have a: "\<not> finished dist_options 0 1 (Vector2 2 2) (Vector2 0 0) (Vector2 4 0)"
    by (simp add: finished_def dist_options_def Let_def distToSegmentSquared_def
        distanceSquared_def magnitudeSquared_def dot_def minus_v_def)
  have b: "finished dist_options (- 1) 0 (Vector2 1 (3/2)) (Vector2 0 0) (Vector2 2 2)"
    by (simp add: finished_def Let_def)
  have "\<exists>res. toPiecewiseLinearSegments_rec (Suc (nat 1)) dist_options 0 1 [] (Vector2 0 0)
       (Vector2 4 0) (Quadratic (Vector2 0 0) (Vector2 2 4) (Vector2 4 0)) = Some res"
    using step[THEN conjunct2, THEN conjunct2] by simp
  moreover have "toPiecewiseLinearSegments_rec (Suc (nat 1)) dist_options 0 1 [] (Vector2 0 0)
       (Vector2 4 0) (Quadratic (Vector2 0 0) (Vector2 2 4) (Vector2 4 0))
     = Some [Line (Vector2 0 0) (Vector2 2 2), Line (Vector2 2 2) (Vector2 4 0)]"
    using bisected_once
    by (simp add: toPiecewiseLinearSegments_def dist_options_def pointMap_or_identity_def
        numeral_2_eq_2)
  ultimately show ?thesis using a b by simp
qed

subsection \<open>Stroking: the miter join\<close>
















subsection \<open>EllipticalArc: the offset curve\<close>

lemma computeUnitTransform_entries:
  "computeUnitTransform c rx ry rot =
     \<lparr>m00 = cos rot * rx, m01 = - sin rot * ry, m02 = vx c,
      m10 = sin rot * rx, m11 = cos rot * ry, m12 = vy c,
      m20 = 0, m21 = 0, m22 = 1, mtype = AFFINE\<rparr>"
  by (simp add: computeUnitTransform_def timesMatrix_def translation_def rotation2_def
      rotationZ_def scaling_def Let_def)

lemma cos_sin_square: "cos a * cos a + sin a * sin a = (1::real)"
  using sin_cos_squared_add2[of a] by (simp add: power2_eq_square)

lemma unit_det: "getDeterminant (computeUnitTransform c rx ry rot) = rx * ry"
proof -
  have "getDeterminant (computeUnitTransform c rx ry rot)
      = rx * ry * (cos rot * cos rot) + rx * ry * (sin rot * sin rot)"
    by (simp add: computeUnitTransform_entries getDeterminant_def algebra_simps)
  also have "\<dots> = rx * ry * (cos rot * cos rot + sin rot * sin rot)"
    by (simp only: distrib_left)
  also have "\<dots> = rx * ry" by (simp only: cos_sin_square mult_1_right)
  finally show ?thesis .
qed

text \<open>The normal at an angle, on the ellipse's own axes turned by the rotation.\<close>

lemma unit_normal:
  assumes "rx \<noteq> 0" "ry \<noteq> 0"
  shows "transformNormal2 (computeUnitTransform c rx ry rot) (createPolar 1 a)
     = Inr (Vector2 (cos rot * (cos a / rx) - sin rot * (sin a / ry))
                    (sin rot * (cos a / rx) + cos rot * (sin a / ry)))"
proof -
  have d: "getDeterminant (computeUnitTransform c rx ry rot) \<noteq> 0"
    using assms by (simp add: unit_det)
  have t: "mtype (computeUnitTransform c rx ry rot) = AFFINE"
    by (simp add: computeUnitTransform_entries)
  show ?thesis
    using assms d
    unfolding transformNormal2_def inverted_def t bind_e_def Let_def unit_det
    by (simp add: computeUnitTransform_entries timesTransposeVector2_def createPolar_def
        timesScalar_def field_simps)
qed

lemma rotate_back:
  fixes k s A B :: real
  shows "(k * k + s * s) * A = k * (k * A - s * B) + s * (s * A + k * B)"
    and "(k * k + s * s) * B = k * (s * A + k * B) - s * (k * A - s * B)"
  by (simp_all add: algebra_simps)

lemma unit_normal_nonzero:
  assumes "rx \<noteq> 0" "ry \<noteq> 0"
  shows "magnitude (Vector2 (cos rot * (cos a / rx) - sin rot * (sin a / ry))
                    (sin rot * (cos a / rx) + cos rot * (sin a / ry))) \<noteq> 0"
proof
  let ?A = "cos a / rx" and ?B = "sin a / ry"
  assume "magnitude (Vector2 (cos rot * ?A - sin rot * ?B) (sin rot * ?A + cos rot * ?B)) = 0"
  then have z: "cos rot * ?A - sin rot * ?B = 0" "sin rot * ?A + cos rot * ?B = 0"
    by (simp_all add: magnitude_def magnitudeSquared_def dot_def sum_squares_eq_zero_iff)
  have "?A = (cos rot * cos rot + sin rot * sin rot) * ?A" by (simp only: cos_sin_square mult_1)
  also have "\<dots> = cos rot * (cos rot * ?A - sin rot * ?B) + sin rot * (sin rot * ?A + cos rot * ?B)"
    by (rule rotate_back(1))
  also have "\<dots> = 0" unfolding z by simp
  finally have A: "?A = 0" .
  have "?B = (cos rot * cos rot + sin rot * sin rot) * ?B" by (simp only: cos_sin_square mult_1)
  also have "\<dots> = cos rot * (sin rot * ?A + cos rot * ?B) - sin rot * (cos rot * ?A - sin rot * ?B)"
    by (rule rotate_back(2))
  also have "\<dots> = 0" unfolding z by simp
  finally have B: "?B = 0" .
  from A B assms have "cos a = 0" "sin a = 0" by simp_all
  with cos_sin_square[of a] show False by simp
qed

lemma magnitude_perpendicular: "magnitude (perpendicular v) = magnitude v"
  by (simp add: magnitude_def magnitudeSquared_def dot_def perpendicular_def add.commute)

lemma magnitude_negated: "magnitude (negated v) = magnitude v"
  by (simp add: magnitude_def magnitudeSquared_def dot_def negated_def)

lemma unit_tangent:
  assumes "rx \<noteq> 0" "ry \<noteq> 0"
  shows "\<exists>t. tangentAtAngle (computeUnitTransform c rx ry rot) acw a = Inr t \<and> magnitude t \<noteq> 0"
  using unit_normal_nonzero[OF assms, of rot a]
  by (simp add: tangentAtAngle_def unit_normal[OF assms] bind_e_def magnitude_perpendicular
      magnitude_negated)

lemma normalized_nonzero: "magnitude v \<noteq> 0 \<Longrightarrow> \<exists>n. normalized v = Inr n"
  by (simp add: normalized_def Let_def)

lemma offsetTo_piece_returns:
  assumes "radiusX arc \<noteq> 0" "radiusY arc \<noteq> 0"
    and "unitTransform arc = computeUnitTransform (arc_center arc) (radiusX arc) (radiusY arc) (rotation arc)"
  shows "\<exists>tangent n. tangentAtAngle (unitTransform arc) (anticlockwise arc)
              (angleAt arc (if reverse then 1 - real i / (real q - 1) else real i / (real q - 1)))
            = Inr tangent
        \<and> normalized (perpendicular tangent) = Inr n
        \<and> offsetTo_piece arc r reverse q i
            = Inr (LineTo (plus_v
                (positionAtAngle (unitTransform arc)
                   (angleAt arc (if reverse then 1 - real i / (real q - 1) else real i / (real q - 1))))
                (times_v n r)))"
proof -
  let ?a = "angleAt arc (if reverse then 1 - real i / (real q - 1) else real i / (real q - 1))"
  from unit_tangent[OF assms(1,2)] obtain t where
    t: "tangentAtAngle (unitTransform arc) (anticlockwise arc) ?a = Inr t" "magnitude t \<noteq> 0"
    unfolding assms(3) by blast
  from t(2) have "magnitude (perpendicular t) \<noteq> 0" by (simp add: magnitude_perpendicular)
  from normalized_nonzero[OF this] obtain n where n: "normalized (perpendicular t) = Inr n"
    by blast
  have "offsetTo_piece arc r reverse q i
            = Inr (LineTo (plus_v (positionAtAngle (unitTransform arc) ?a) (times_v n r)))"
    using t(1) n by (simp add: offsetTo_piece_def Let_def bind_e_def)
  with t(1) n show ?thesis by blast
qed

lemma mapM_e_returns:
  assumes "\<And>i. \<exists>v. f i = Inr v"
  shows "\<exists>vs. mapM_e f xs = Inr vs \<and> length vs = length xs
           \<and> (\<forall>k<length xs. f (xs ! k) = Inr (vs ! k))"
proof (induction xs)
  case Nil
  then show ?case by simp
next
  case (Cons x xs)
  from assms obtain v where v: "f x = Inr v" by blast
  from Cons.IH obtain vs where vs: "mapM_e f xs = Inr vs" "length vs = length xs"
    "\<forall>k<length xs. f (xs ! k) = Inr (vs ! k)" by blast
  have "mapM_e f (x # xs) = Inr (v # vs)" using v vs(1) by (simp add: bind_e_def)
  moreover have "\<forall>k<length (x # xs). f ((x # xs) ! k) = Inr ((v # vs) ! k)"
    using v vs(3) by (auto simp: nth_Cons split: nat.splits)
  ultimately show ?case using vs(2) by auto
qed

lemma constructed_valid:
  assumes "new_EllipticalArc c rx ry rot sa ea acw = Inr arc" "\<not> arc_invalid arc"
  shows "radiusX arc \<noteq> 0" "radiusY arc \<noteq> 0"
    "unitTransform arc = computeUnitTransform (arc_center arc) (radiusX arc) (radiusY arc) (rotation arc)"
    "radiusX arc = rx" "radiusY arc = ry" "startAngle arc = sa" "endAngle arc = ea"
    "anticlockwise arc = acw" "arc_center arc = c" "rotation arc = rot"
  using assms
  by (auto simp: new_EllipticalArc_def Let_def bind_e_def split: sum.splits if_splits)

lemma offsetTo_returns:
  assumes "radiusX arc \<noteq> 0" "radiusY arc \<noteq> 0"
    and "unitTransform arc = computeUnitTransform (arc_center arc) (radiusX arc) (radiusY arc) (rotation arc)"
  shows "\<exists>ps. offsetTo arc r reverse = Inr ps \<and> length ps = 31
           \<and> (\<forall>k<31. offsetTo_piece arc r reverse 32 (Suc k) = Inr (ps ! k))"
proof -
  have "\<exists>v. offsetTo_piece arc r reverse 32 i = Inr v" for i
    using offsetTo_piece_returns[OF assms, of reverse i 32 r] by blast
  from mapM_e_returns[of "offsetTo_piece arc r reverse 32" "[1..<32]", OF this]
  obtain ps where ps: "mapM_e (offsetTo_piece arc r reverse 32) [1..<32] = Inr ps"
    "length ps = length [1..<32]"
    "\<forall>k<length [1..<32]. offsetTo_piece arc r reverse 32 ([1..<32] ! k) = Inr (ps ! k)"
    by blast
  have "offsetTo arc r reverse = Inr ps" using ps(1) by (simp add: offsetTo_def Let_def)
  moreover have "length ps = 31" using ps(2) by simp
  moreover have "\<forall>k<31. offsetTo_piece arc r reverse 32 (Suc k) = Inr (ps ! k)"
  proof (intro allI impI)
    fix k :: nat assume k: "k < 31"
    then have "[1..<32] ! k = Suc k" by simp
    with ps(3) k show "offsetTo_piece arc r reverse 32 (Suc k) = Inr (ps ! k)" by simp
  qed
  ultimately show ?thesis by blast
qed

lemma constructor_returns:
  assumes "rx \<noteq> 0" "ry \<noteq> 0" "sa \<noteq> ea" "\<not> rx < ry"
  shows "\<exists>arc. new_EllipticalArc c rx ry rot sa ea acw = Inr arc \<and> \<not> arc_invalid arc"
proof -
  from unit_tangent[OF assms(1,2)] obtain t1 where
    t1: "tangentAtAngle (computeUnitTransform c rx ry rot) acw sa = Inr t1" "magnitude t1 \<noteq> 0"
    by blast
  from unit_tangent[OF assms(1,2)] obtain t2 where
    t2: "tangentAtAngle (computeUnitTransform c rx ry rot) acw ea = Inr t2" "magnitude t2 \<noteq> 0"
    by blast
  from normalized_nonzero[OF t1(2)] obtain n1 where n1: "normalized t1 = Inr n1" by blast
  from normalized_nonzero[OF t2(2)] obtain n2 where n2: "normalized t2 = Inr n2" by blast
  show ?thesis
    using assms t1(1) t2(1) n1 n2
    by (simp add: new_EllipticalArc_def Let_def bind_e_def)
qed

text \<open>
  C8. For every EllipticalArc that its constructor returns and does not flag invalid,
  \<open>strokeLeft(lineWidth)\<close> and \<open>strokeRight(lineWidth)\<close> return 31 line pieces, not
  32: the loop counter runs from 1 to 31 and samples at \<open>i / 31\<close> (\<open>1 - i / 31\<close> when
  reversed). Each piece is the line to the arc's position at the sampled angle plus the
  normalized perpendicular of the tangent there, scaled by the offset radius.
\<close>

theorem offsetTo_31_pieces:
  assumes "new_EllipticalArc c rx ry rot sa ea acw = Inr arc" "\<not> arc_invalid arc"
  shows "(\<exists>ps. strokeLeft arc w = Inr ps \<and> length ps = 31
           \<and> (\<forall>k<31. offsetTo_piece arc (- w / 2) False 32 (Suc k) = Inr (ps ! k)))
       \<and> (\<exists>ps. strokeRight arc w = Inr ps \<and> length ps = 31
           \<and> (\<forall>k<31. offsetTo_piece arc (w / 2) True 32 (Suc k) = Inr (ps ! k)))
       \<and> (\<forall>r reverse i. \<exists>tangent n.
             tangentAtAngle (unitTransform arc) (anticlockwise arc)
                (angleAt arc (if reverse then 1 - real i / 31 else real i / 31)) = Inr tangent
           \<and> normalized (perpendicular tangent) = Inr n
           \<and> offsetTo_piece arc r reverse 32 i
               = Inr (LineTo (plus_v
                   (positionAtAngle (unitTransform arc)
                      (angleAt arc (if reverse then 1 - real i / 31 else real i / 31)))
                   (times_v n r))))"
proof -
  note v = constructed_valid(1,2,3)[OF assms]
  have q: "real 32 - 1 = 31" by simp
  have p: "\<exists>tangent n.
             tangentAtAngle (unitTransform arc) (anticlockwise arc)
                (angleAt arc (if reverse then 1 - real i / 31 else real i / 31)) = Inr tangent
           \<and> normalized (perpendicular tangent) = Inr n
           \<and> offsetTo_piece arc r reverse 32 i
               = Inr (LineTo (plus_v
                   (positionAtAngle (unitTransform arc)
                      (angleAt arc (if reverse then 1 - real i / 31 else real i / 31)))
                   (times_v n r)))" for r reverse i
    using offsetTo_piece_returns[OF v, of reverse i 32 r] unfolding q .
  show ?thesis
    using offsetTo_returns[OF v, of "- w / 2" False] offsetTo_returns[OF v, of "w / 2" True] p
    unfolding strokeLeft_def strokeRight_def by blast
qed

theorem offsetTo_31_pieces_witness:
  "\<exists>arc. new_EllipticalArc (Vector2 0 0) 2 1 0 0 (pi / 2) False = Inr arc
        \<and> \<not> arc_invalid arc
        \<and> (\<exists>ps. strokeLeft arc 2 = Inr ps \<and> length ps = 31 \<and> length ps \<noteq> 32)
        \<and> (\<exists>ps. strokeRight arc 2 = Inr ps \<and> length ps = 31 \<and> length ps \<noteq> 32)"
proof -
  have "(0::real) \<noteq> pi / 2" using pi_gt_zero by simp
  from constructor_returns[of 2 1 0 "pi / 2" "Vector2 0 0" 0 False, OF _ _ this]
  obtain arc where
    arc: "new_EllipticalArc (Vector2 0 0) 2 1 0 0 (pi / 2) False = Inr arc" "\<not> arc_invalid arc"
    by auto
  from offsetTo_31_pieces[OF arc, of 2] obtain ps1 ps2 where
    "strokeLeft arc 2 = Inr ps1" "length ps1 = 31" "strokeRight arc 2 = Inr ps2" "length ps2 = 31"
    by blast
  with arc show ?thesis by auto
qed

end
